theory Spec2Isabelle
  imports Complex_Main
begin

section \<open>Floating-point values and Python errors\<close>

text \<open>
  The numbers of \<^verbatim>\<open>kinematics.py\<close> are Python and numpy floats. They are modelled by
  \<open>npfloat\<close>: a finite value is a real number (\<open>Fin\<close>), and the three special values of
  IEEE 754 that numpy produces instead of raising (\<open>nan\<close>, \<open>inf\<close>, \<open>-inf\<close>) are
  constructors of their own. Finite arithmetic is exact: rounding, overflow and the sign of
  zero are left out of the model (a division by zero is a division by \<open>+0.0\<close>).
\<close>

datatype npfloat = NaN | MInf | Fin real | PInf

fun fneg :: "npfloat \<Rightarrow> npfloat" where
  "fneg NaN = NaN"
| "fneg MInf = PInf"
| "fneg (Fin a) = Fin (- a)"
| "fneg PInf = MInf"

fun fadd :: "npfloat \<Rightarrow> npfloat \<Rightarrow> npfloat" where
  "fadd (Fin a) (Fin b) = Fin (a + b)"
| "fadd NaN y = NaN"
| "fadd x NaN = NaN"
| "fadd PInf MInf = NaN"
| "fadd MInf PInf = NaN"
| "fadd PInf y = PInf"
| "fadd MInf y = MInf"
| "fadd x PInf = PInf"
| "fadd x MInf = MInf"

definition fsub :: "npfloat \<Rightarrow> npfloat \<Rightarrow> npfloat" where
  "fsub x y = fadd x (fneg y)"

text \<open>The sign of an infinite product or quotient: the infinity \<open>i\<close> times the sign of \<open>a\<close>.\<close>

definition signed_inf :: "npfloat \<Rightarrow> real \<Rightarrow> npfloat" where
  "signed_inf i a = (if a = 0 then NaN else if 0 < a then i else fneg i)"

fun fmul :: "npfloat \<Rightarrow> npfloat \<Rightarrow> npfloat" where
  "fmul (Fin a) (Fin b) = Fin (a * b)"
| "fmul NaN y = NaN"
| "fmul x NaN = NaN"
| "fmul (Fin a) y = signed_inf y a"
| "fmul x (Fin b) = signed_inf x b"
| "fmul PInf y = y"
| "fmul MInf y = fneg y"

fun fdiv :: "npfloat \<Rightarrow> npfloat \<Rightarrow> npfloat" where
  "fdiv (Fin a) (Fin b) = (if b = 0 then signed_inf PInf a else Fin (a / b))"
| "fdiv NaN y = NaN"
| "fdiv x NaN = NaN"
| "fdiv (Fin a) y = Fin 0"
| "fdiv x (Fin b) = (if b = 0 then x else signed_inf x b)"
| "fdiv x y = NaN"

text \<open>\<^verbatim>\<open>x**2\<close> on a float.\<close>

definition fpow2 :: "npfloat \<Rightarrow> npfloat" where
  "fpow2 x = fmul x x"

text \<open>\<^verbatim>\<open>np.sqrt\<close>: the square root of a negative number is \<open>nan\<close> (numpy warns, it does not
  raise).\<close>

fun np_sqrt :: "npfloat \<Rightarrow> npfloat" where
  "np_sqrt (Fin a) = (if a < 0 then NaN else Fin (sqrt a))"
| "np_sqrt PInf = PInf"
| "np_sqrt x = NaN"

text \<open>
  The exceptions. \<open>UnboundLocalError\<close> (a \<open>NameError\<close>), \<open>KeyError\<close> and \<open>IndexError\<close> are
  Python's own and are what the source can raise; \<open>LibraryError\<close> stands for any exception
  raised inside lmfit. \<open>InvalidParameterError\<close> and \<open>OrderingError\<close> are the names the
  specification uses; no statement of the source raises them.
\<close>

datatype py_error =
    UnboundLocalError | KeyError | IndexError | LibraryError
  | InvalidParameterError | OrderingError

section \<open>Module level\<close>

definition SpOfLi :: npfloat where
  "SpOfLi = Fin 300000"

text \<open>
  \<^verbatim>\<open>vel_dispersion(sigmaObs, sigmaObsError, sigmaTemp2, filter)\<close>. The \<^verbatim>\<open>if/elif\<close> has no
  \<^verbatim>\<open>else\<close>: with any other filter \<^verbatim>\<open>sigmaInstr\<close> is never assigned and its first use raises
  \<open>UnboundLocalError\<close>. Python parses \<^verbatim>\<open>2 * e/s * s**2\<close> as \<^verbatim>\<open>((2 * e) / s) * (s**2)\<close> and
  \<^verbatim>\<open>0.5 * q/s**2 * i\<close> as \<^verbatim>\<open>((0.5 * q) / (s**2)) * i\<close>. The arguments are floats, as at the call
  of the script (the fitted sigma, its standard error, the catalogue's \<^verbatim>\<open>sigmaT2\<close>); the argument
  \<^verbatim>\<open>filter\<close> is written \<open>filt\<close>.
\<close>

definition vel_dispersion ::
  "npfloat \<Rightarrow> npfloat \<Rightarrow> npfloat \<Rightarrow> string \<Rightarrow> py_error + (npfloat \<times> npfloat)" where
  "vel_dispersion sigmaObs sigmaObsError sigmaTemp2 filt =
     (case (if filt = ''blue'' then Some (Fin 4.9)
            else if filt = ''red'' then Some (Fin 5.6)
            else None) of
        None \<Rightarrow> Inl UnboundLocalError
      | Some sigmaInstr \<Rightarrow>
          (let intrinsic = np_sqrt (fsub (fsub (fpow2 sigmaObs) (fpow2 sigmaInstr)) sigmaTemp2);
               squareError = fmul (fdiv (fmul (Fin 2) sigmaObsError) sigmaObs) (fpow2 sigmaObs);
               intrinsicError = fmul (fdiv (fmul (Fin 0.5) squareError) (fpow2 sigmaObs)) intrinsic
           in Inr (intrinsic, intrinsicError)))"

section \<open>EmissionLineProfile\<close>

text \<open>
  \<^verbatim>\<open>_velocity(self, wave)\<close>: \<^verbatim>\<open>wave\<close> is a numpy array, so the arithmetic is element-wise;
  \<^verbatim>\<open>self.restWave\<close> is passed as the first argument.
\<close>

definition velocity :: "npfloat \<Rightarrow> npfloat list \<Rightarrow> npfloat list" where
  "velocity restWave wave = map (\<lambda>w. fmul (fdiv (fsub w restWave) restWave) SpOfLi) wave"

section \<open>lmfit: parameters, fit results, the optimiser\<close>

text \<open>
  \<^verbatim>\<open>lmfit\<close> is a library, not code of this repository. What the source reads and writes
  of it is modelled as data: a \<^verbatim>\<open>Parameter\<close> with its value, bounds and vary-flag, a
  \<^verbatim>\<open>Parameters\<close> dictionary from names to parameters, and a \<^verbatim>\<open>ModelResult\<close> with
  \<^verbatim>\<open>best_values\<close>, \<^verbatim>\<open>best_fit\<close> and the curves of \<^verbatim>\<open>eval_components()\<close>.
  The derived parameters of a Gaussian (\<^verbatim>\<open>fwhm\<close>, \<^verbatim>\<open>height\<close>) and the standard errors are
  not modelled.
\<close>

record parameter =
  par_value :: npfloat
  par_min :: npfloat
  par_max :: npfloat
  par_vary :: bool

type_synonym parameters = "string \<rightharpoonup> parameter"

record model_result =
  best_values :: "string \<rightharpoonup> npfloat"
  best_fit :: "npfloat list"
  eval_components :: "string \<rightharpoonup> npfloat list"

text \<open>
  Building the composite model (\<^verbatim>\<open>lin + gList.sum()\<close>) and fitting it
  (\<^verbatim>\<open>mod.fit(self.flux, self.linGaussParams, x=self.vel, weights=self.weights)\<close>) are
  lmfit's work. Both are one parameter of the model, a \<open>fitter\<close>: it receives the prefixes
  of the model's components, the data, the parameters, the abscissa and the weights, and
  returns the fit result or an error of the library.
\<close>

type_synonym fitter =
  "string list \<Rightarrow> npfloat list \<Rightarrow> parameters \<Rightarrow> npfloat list \<Rightarrow> npfloat list option
     \<Rightarrow> py_error + model_result"

text \<open>\<^verbatim>\<open>'%d' % n\<close> for a natural number \<open>n\<close>: its decimal digits.\<close>

definition digit_char :: "nat \<Rightarrow> char" where
  "digit_char d = ''0123456789'' ! d"

function string_of_nat :: "nat \<Rightarrow> string" where
  "string_of_nat n =
     (if n < 10 then [digit_char n] else string_of_nat (n div 10) @ [digit_char (n mod 10)])"
  by pat_completeness auto
termination
  by (relation "measure id") auto

declare string_of_nat.simps [simp del]

text \<open>\<^verbatim>\<open>'g%d_' % (i+1)\<close>, the prefix of the Gaussian of index \<open>i\<close>.\<close>

definition gprefix :: "nat \<Rightarrow> string" where
  "gprefix i = ''g'' @ string_of_nat (i + 1) @ ''_''"

section \<open>FittingProfile\<close>

record FittingProfile =
  vel :: "npfloat list"
  flux :: "npfloat list"
  fluxError :: "npfloat list option"
  restWave :: npfloat
  lineName :: string
  zone :: string
  weights :: "npfloat list option"
  linGaussParams :: parameters

text \<open>
  \<^verbatim>\<open>_weights(self)\<close>: \<^verbatim>\<open>1./fluxErrorCR\<close> on a numpy array is element-wise, and a zero
  entry gives \<open>inf\<close>.
\<close>

definition FittingProfile_weights :: "FittingProfile \<Rightarrow> npfloat list option" where
  "FittingProfile_weights self =
     (case fluxError self of
        None \<Rightarrow> None
      | Some fluxErrorCR \<Rightarrow> Some (map (\<lambda>e. fdiv (Fin 1) e) fluxErrorCR))"

text \<open>\<^verbatim>\<open>__init__(self, vel, flux, restWave, lineName, zone, fluxError=None)\<close>.\<close>

definition FittingProfile_init ::
  "npfloat list \<Rightarrow> npfloat list \<Rightarrow> npfloat \<Rightarrow> string \<Rightarrow> string \<Rightarrow> npfloat list option
     \<Rightarrow> FittingProfile" where
  "FittingProfile_init v f rw name z fe =
     (let self = \<lparr>vel = v, flux = f, fluxError = fe, restWave = rw, lineName = name,
                  zone = z, weights = None, linGaussParams = Map.empty\<rparr>
      in self\<lparr>weights := FittingProfile_weights self\<rparr>)"

text \<open>
  \<^verbatim>\<open>_get_amplitude(self, numOfComponents, modelFit)\<close>. The loop adds the amplitudes in
  the order of the indices; a missing key of \<^verbatim>\<open>best_values\<close> raises \<open>KeyError\<close>. The two
  \<^verbatim>\<open>print\<close> statements are not modelled.
\<close>

fun amplitude_loop :: "model_result \<Rightarrow> npfloat \<Rightarrow> nat list \<Rightarrow> py_error + npfloat" where
  "amplitude_loop modelFit amplitudeTotal [] = Inr amplitudeTotal"
| "amplitude_loop modelFit amplitudeTotal (i # rest) =
     (case best_values modelFit (gprefix i @ ''amplitude'') of
        None \<Rightarrow> Inl KeyError
      | Some v \<Rightarrow> amplitude_loop modelFit (fadd amplitudeTotal v) rest)"

definition get_amplitude :: "FittingProfile \<Rightarrow> nat \<Rightarrow> model_result \<Rightarrow> py_error + npfloat" where
  "get_amplitude self numOfComponents modelFit =
     (case amplitude_loop modelFit (Fin 0) [0..<numOfComponents] of
        Inl e \<Rightarrow> Inl e
      | Inr amplitudeTotal \<Rightarrow> Inr (fmul (fdiv amplitudeTotal SpOfLi) (restWave self)))"

text \<open>A keyword argument with a default: \<open>None\<close> is "not supplied".\<close>

definition default_arg :: "'a \<Rightarrow> 'a option \<Rightarrow> 'a" where
  "default_arg d x = (case x of None \<Rightarrow> d | Some v \<Rightarrow> v)"

text \<open>
  \<^verbatim>\<open>_gaussian_component(self, pars, prefix, c, s, a, cMin=-np.inf, cMax=np.inf,
  sMin=-np.inf, sMax=np.inf, aMin=-np.inf, aMax=np.inf)\<close>. The flags are assigned under
  \<^verbatim>\<open>if self.zone == 'low'\<close> and \<^verbatim>\<open>elif self.zone == 'high'\<close> only: for any other zone they
  stay unbound and the first \<^verbatim>\<open>.set(..., vary=varyCentre)\<close> raises \<open>UnboundLocalError\<close>.
  \<^verbatim>\<open>pars.update(g.make_params())\<close> creates the three parameters and the three \<^verbatim>\<open>.set\<close>
  calls overwrite their value, bounds and vary-flag, in the order center, sigma,
  amplitude. The function returns the Gaussian model \<^verbatim>\<open>g\<close>, which is identified by its
  prefix, and has updated \<^verbatim>\<open>pars\<close> in place: the model returns both.
\<close>

definition gaussian_component ::
  "FittingProfile \<Rightarrow> parameters \<Rightarrow> string \<Rightarrow> npfloat \<Rightarrow> npfloat \<Rightarrow> npfloat
     \<Rightarrow> npfloat option \<Rightarrow> npfloat option \<Rightarrow> npfloat option \<Rightarrow> npfloat option
     \<Rightarrow> npfloat option \<Rightarrow> npfloat option \<Rightarrow> py_error + (parameters \<times> string)" where
  "gaussian_component self pars prefix c s a cMin cMax sMin sMax aMin aMax =
     (case (if zone self = ''low'' then
              (if lineName self = ''H-Alpha'' then Some (True, True, True)
               else if lineName self \<in> set [''NII-6584A'', ''SII-6717A'', ''OII-3729A'']
                 then Some (False, True, True)
               else Some (False, False, True))
            else if zone self = ''high'' then
              (if lineName self = ''OIII-5007A'' then Some (True, True, True)
               else Some (False, False, True))
            else None) of
        None \<Rightarrow> Inl UnboundLocalError
      | Some (varyCentre, varySigma, varyAmp) \<Rightarrow>
          (let pars1 = pars(prefix @ ''center'' \<mapsto>
                 \<lparr>par_value = c, par_min = default_arg MInf cMin,
                  par_max = default_arg PInf cMax, par_vary = varyCentre\<rparr>);
               pars2 = pars1(prefix @ ''sigma'' \<mapsto>
                 \<lparr>par_value = s, par_min = default_arg MInf sMin,
                  par_max = default_arg PInf sMax, par_vary = varySigma\<rparr>);
               pars3 = pars2(prefix @ ''amplitude'' \<mapsto>
                 \<lparr>par_value = a, par_min = default_arg MInf aMin,
                  par_max = default_arg PInf aMax, par_vary = varyAmp\<rparr>)
           in Inr (pars3, prefix)))"

text \<open>
  The parameters of the linear continuum after \<^verbatim>\<open>lin.guess\<close>, \<^verbatim>\<open>update(lin.make_params())\<close>
  and the two \<^verbatim>\<open>.set\<close> calls of \<^verbatim>\<open>lin_and_multi_gaussian\<close>: the values are \<^verbatim>\<open>lS\<close> and
  \<^verbatim>\<open>lI\<close>; the bounds and the vary-flag are lmfit's defaults (unbounded, free), which the
  source does not change. The guess itself is overwritten; that \<^verbatim>\<open>lin.guess\<close> may fail on
  degenerate data is not modelled.
\<close>

definition linear_params :: "npfloat \<Rightarrow> npfloat \<Rightarrow> parameters" where
  "linear_params lS lI =
     [''lin_slope'' \<mapsto> \<lparr>par_value = lS, par_min = MInf, par_max = PInf, par_vary = True\<rparr>,
      ''lin_intercept'' \<mapsto> \<lparr>par_value = lI, par_min = MInf, par_max = PInf, par_vary = True\<rparr>]"

text \<open>
  The loop \<^verbatim>\<open>for i in range(numOfComponents): gList.append(self._gaussian_component(
  self.linGaussParams, 'g%d_' % (i+1), cList[i], sList[i], aList[i]))\<close>, over the list of
  indices. An index past the end of a list raises \<open>IndexError\<close>.
\<close>

fun gaussian_components ::
  "FittingProfile \<Rightarrow> parameters \<Rightarrow> npfloat list \<Rightarrow> npfloat list \<Rightarrow> npfloat list \<Rightarrow> nat list
     \<Rightarrow> py_error + (parameters \<times> string list)" where
  "gaussian_components self pars cList sList aList [] = Inr (pars, [])"
| "gaussian_components self pars cList sList aList (i # rest) =
     (if i < length cList \<and> i < length sList \<and> i < length aList then
        (case gaussian_component self pars (gprefix i) (cList ! i) (sList ! i) (aList ! i)
                None None None None None None of
           Inl e \<Rightarrow> Inl e
         | Inr (pars', g) \<Rightarrow>
             (case gaussian_components self pars' cList sList aList rest of
                Inl e \<Rightarrow> Inl e
              | Inr (pars'', gList) \<Rightarrow> Inr (pars'', g # gList)))
      else Inl IndexError)"

text \<open>
  \<^verbatim>\<open>lin_and_multi_gaussian(self, numOfComponents, cList, sList, aList, lS, lI)\<close>. It
  assigns \<^verbatim>\<open>self.linGaussParams\<close>, so the model returns the updated profile next to the
  pair \<^verbatim>\<open>(out, components)\<close> of the source. The value of \<^verbatim>\<open>self._get_amplitude(...)\<close> is
  not bound to anything; only an error of that call is seen by the caller. The initial
  curve \<^verbatim>\<open>init\<close>, the fit report and the figure are not modelled.
\<close>

definition lin_and_multi_gaussian ::
  "fitter \<Rightarrow> FittingProfile \<Rightarrow> nat \<Rightarrow> npfloat list \<Rightarrow> npfloat list \<Rightarrow> npfloat list
     \<Rightarrow> npfloat \<Rightarrow> npfloat
     \<Rightarrow> py_error + (FittingProfile \<times> model_result \<times> (string \<rightharpoonup> npfloat list))" where
  "lin_and_multi_gaussian fit self numOfComponents cList sList aList lS lI =
     (case gaussian_components self (linear_params lS lI) cList sList aList
             [0..<numOfComponents] of
        Inl e \<Rightarrow> Inl e
      | Inr (pars, gList) \<Rightarrow>
          (let self' = self\<lparr>linGaussParams := pars\<rparr> in
           case fit (''lin_'' # gList) (flux self') (linGaussParams self') (vel self')
                  (weights self') of
             Inl e \<Rightarrow> Inl e
           | Inr out \<Rightarrow>
               (let components = eval_components out in
                case get_amplitude self' numOfComponents out of
                  Inl e \<Rightarrow> Inl e
                | Inr amplitudeFinal \<Rightarrow> Inr (self', out, components))))"

section \<open>The script\<close>

text \<open>
  The records of \<^verbatim>\<open>emProfiles\<close>. The keys \<^verbatim>\<open>centerList\<close> and \<^verbatim>\<open>sigmaList\<close> are absent
  until the script stores them: \<open>None\<close> is the absent key. The key \<^verbatim>\<open>zone\<close> is the field
  \<open>em_zone\<close>.
\<close>

record em_info =
  Colour :: string
  Order :: nat
  Filter :: string
  minI :: nat
  maxI :: nat
  restWavelength :: npfloat
  ampList :: "npfloat list"
  em_zone :: string
  sigmaT2 :: npfloat
  centerList :: "npfloat list option"
  sigmaList :: "npfloat list option"

definition numComps :: nat where
  "numComps = 3"

definition emProfiles_initial :: "(string \<times> em_info) list" where
  "emProfiles_initial =
     [(''H-Alpha'', \<lparr>Colour = ''b'', Order = 21, Filter = ''red'', minI = 1180, maxI = 1650,
       restWavelength = Fin 6562.82, ampList = [Fin 17.1348544, Fin 15.3253166, Fin 25.991642],
       em_zone = ''low'', sigmaT2 = Fin 164.96, centerList = None, sigmaList = None\<rparr>),
      (''OIII-5007A'', \<lparr>Colour = ''b'', Order = 5, Filter = ''red'', minI = 1600, maxI = 2100,
       restWavelength = Fin 5006.84, ampList = [Fin 22.1758322, Fin 26.5388225, Fin 27.2491337],
       em_zone = ''high'', sigmaT2 = Fin 41.54, centerList = None, sigmaList = None\<rparr>),
      (''H-Beta'', \<lparr>Colour = ''g'', Order = 36, Filter = ''blue'', minI = 2150, maxI = 2800,
       restWavelength = Fin 4861.33, ampList = [Fin 7.1034076, Fin 6.9433769, Fin 9.0872379],
       em_zone = ''low'', sigmaT2 = Fin 164.96, centerList = None, sigmaList = None\<rparr>),
      (''H-Gamma'', \<lparr>Colour = ''r'', Order = 28, Filter = ''blue'', minI = 700, maxI = 1200,
       restWavelength = Fin 4340.47, ampList = [Fin 3.5975998, Fin 4.4061048, Fin 4.9858672],
       em_zone = ''low'', sigmaT2 = Fin 164.96, centerList = None, sigmaList = None\<rparr>),
      (''H-Delta'', \<lparr>Colour = ''c'', Order = 23, Filter = ''blue'', minI = 1400, maxI = 2000,
       restWavelength = Fin 4101.74, ampList = [Fin 2.044593, Fin 2.5207303, Fin 2.9131719],
       em_zone = ''low'', sigmaT2 = Fin 164.96, centerList = None, sigmaList = None\<rparr>),
      (''NII-6584A'', \<lparr>Colour = ''y'', Order = 21, Filter = ''red'', minI = 1750, maxI = 2050,
       restWavelength = Fin 6583.41, ampList = [Fin 1.9724283, Fin 2.2865144, Fin 1.5250645],
       em_zone = ''low'', sigmaT2 = Fin 11.87, centerList = None, sigmaList = None\<rparr>),
      (''NII-6548A'', \<lparr>Colour = ''m'', Order = 21, Filter = ''red'', minI = 1000, maxI = 1300,
       restWavelength = Fin 6548.03, ampList = [Fin 0.6269642, Fin 0.7364259, Fin 0.5323627],
       em_zone = ''low'', sigmaT2 = Fin 11.87, centerList = None, sigmaList = None\<rparr>),
      (''SII-6717A'', \<lparr>Colour = ''k'', Order = 22, Filter = ''red'', minI = 1850, maxI = 2000,
       restWavelength = Fin 6716.47, ampList = [Fin 1.6193481, Fin 2.2161351, Fin 1.2806343],
       em_zone = ''low'', sigmaT2 = Fin 5.19, centerList = None, sigmaList = None\<rparr>),
      (''SII-6731A'', \<lparr>Colour = ''#58D68D'', Order = 22, Filter = ''red'', minI = 2100, maxI = 2350,
       restWavelength = Fin 6730.85, ampList = [Fin 1.0146995, Fin 1.8904713, Fin 0.4226594],
       em_zone = ''low'', sigmaT2 = Fin 5.19, centerList = None, sigmaList = None\<rparr>),
      (''OII-3729A'', \<lparr>Colour = ''#5D6D7E'', Order = 14, Filter = ''blue'', minI = 2800, maxI = 3000,
       restWavelength = Fin 3728.82, ampList = [Fin 16.666917, Fin (-2.4780989), Fin 19.0953365],
       em_zone = ''low'', sigmaT2 = Fin 10.39, centerList = None, sigmaList = None\<rparr>),
      (''OII-3726A'', \<lparr>Colour = ''#EC7063'', Order = 14, Filter = ''blue'', minI = 2660, maxI = 2829,
       restWavelength = Fin 3726.03, ampList = [Fin 11.3620053, Fin (-1.5491075), Fin 12.0488916],
       em_zone = ''low'', sigmaT2 = Fin 10.39, centerList = None, sigmaList = None\<rparr>),
      (''OI-6300A'', \<lparr>Colour = ''#D35400'', Order = 19, Filter = ''red'', minI = 1050, maxI = 1250,
       restWavelength = Fin 6300.3, ampList = [Fin 0.4723283, Fin 0.0564226, Fin 0.3964602],
       em_zone = ''low'', sigmaT2 = Fin 10.39, centerList = None, sigmaList = None\<rparr>),
      (''SIII-9069A'', \<lparr>Colour = ''#27AE60'', Order = 35, Filter = ''red'', minI = 1720, maxI = 1870,
       restWavelength = Fin 9068.9, ampList = [Fin 0.9362368, Fin 0.7920389, Fin 1.3819049],
       em_zone = ''low'', sigmaT2 = Fin 5.19, centerList = None, sigmaList = None\<rparr>),
      (''ArIII-7136A'', \<lparr>Colour = ''#0E6655'', Order = 25, Filter = ''red'', minI = 1713, maxI = 1790,
       restWavelength = Fin 7135.78, ampList = [Fin 0.4554454, Fin (-0.227442), Fin 1.066718],
       em_zone = ''low'', sigmaT2 = Fin 4.16, centerList = None, sigmaList = None\<rparr>),
      (''HeIH8-3889A'', \<lparr>Colour = ''#5B2C6F'', Order = 18, Filter = ''blue'', minI = 2450, maxI = 2750,
       restWavelength = Fin 3888.65, ampList = [Fin 2.1000007, Fin 4.4749605, Fin 0.0491404],
       em_zone = ''low'', sigmaT2 = Fin 41.54, centerList = None, sigmaList = None\<rparr>),
      (''HeI-4471A'', \<lparr>Colour = ''#78281F'', Order = 30, Filter = ''blue'', minI = 1750, maxI = 1900,
       restWavelength = Fin 4471.48, ampList = [Fin 0.2947782, Fin 0.0391142, Fin 0.4628401],
       em_zone = ''low'', sigmaT2 = Fin 41.54, centerList = None, sigmaList = None\<rparr>),
      (''HeI-5876A'', \<lparr>Colour = ''#641E16'', Order = 15, Filter = ''red'', minI = 1320, maxI = 1700,
       restWavelength = Fin 5875.64, ampList = [Fin 0.6740428, Fin 0.8351308, Fin 0.995738],
       em_zone = ''low'', sigmaT2 = Fin 41.54, centerList = None, sigmaList = None\<rparr>),
      (''HeI-6678A'', \<lparr>Colour = ''#D5D8DC'', Order = 22, Filter = ''red'', minI = 1050, maxI = 1240,
       restWavelength = Fin 6678.15, ampList = [Fin 0.2719279, Fin (-0.0142201), Fin 0.3160476],
       em_zone = ''low'', sigmaT2 = Fin 41.54, centerList = None, sigmaList = None\<rparr>),
      (''HeI-7065A'', \<lparr>Colour = ''#E8DAEF'', Order = 24, Filter = ''red'', minI = 3150, maxI = 3450,
       restWavelength = Fin 7065.19, ampList = [Fin 0.1282397, Fin 0.0734707, Fin 0.1437775],
       em_zone = ''low'', sigmaT2 = Fin 41.54, centerList = None, sigmaList = None\<rparr>),
      (''OIII-4959A'', \<lparr>Colour = ''g'', Order = 4, Filter = ''red'', minI = 2300, maxI = 2800,
       restWavelength = Fin 4958.91, ampList = [Fin 6.8087454, Fin 12.5480993, Fin 8.2404803],
       em_zone = ''high'', sigmaT2 = Fin 10.39, centerList = None, sigmaList = None\<rparr>),
      (''NeIII-3868A'', \<lparr>Colour = ''r'', Order = 18, Filter = ''blue'', minI = 1430, maxI = 1650,
       restWavelength = Fin 3868.75, ampList = [Fin 1.7799479, Fin 2.1882309, Fin 2.4413756],
       em_zone = ''high'', sigmaT2 = Fin 8.24, centerList = None, sigmaList = None\<rparr>),
      (''NeIII-3970A'', \<lparr>Colour = ''c'', Order = 20, Filter = ''blue'', minI = 2110, maxI = 2290,
       restWavelength = Fin 3970.07, ampList = [Fin 1.238593, Fin 1.6775335, Fin 1.2004524],
       em_zone = ''high'', sigmaT2 = Fin 8.24, centerList = None, sigmaList = None\<rparr>),
      (''NeIII-3967A'', \<lparr>Colour = ''m'', Order = 20, Filter = ''blue'', minI = 1950, maxI = 2135,
       restWavelength = Fin 3967.46, ampList = [Fin 0.2356511, Fin 2.1809468, Fin 0.4933878],
       em_zone = ''high'', sigmaT2 = Fin 8.24, centerList = None, sigmaList = None\<rparr>)]"

definition centerListLowZone :: "npfloat list" where
  "centerListLowZone = [Fin 6349.20126, Fin 6328.97820, Fin 6315.53639]"

definition sigmaListLowZone :: "npfloat list" where
  "sigmaListLowZone = [Fin 19.2852694, Fin 64.1684056, Fin 22.2647170]"

definition linSlopeLowZone :: npfloat where
  "linSlopeLowZone = Fin (1.9393 / 10 ^ 7)"

definition linIntLowZone :: npfloat where
  "linIntLowZone = Fin 0.00761986"

definition centerListHighZone :: "npfloat list" where
  "centerListHighZone = [Fin 6348.46630, Fin 6333.03711, Fin 6314.57965]"

definition sigmaListHighZone :: "npfloat list" where
  "sigmaListHighZone = [Fin 15.9660139, Fin 56.3804782, Fin 16.6302799]"

definition linSlopeHighZone :: npfloat where
  "linSlopeHighZone = Fin (2.6129 / 10 ^ 6)"

definition linIntHighZone :: npfloat where
  "linIntHighZone = Fin (- 0.00147764)"

text \<open>\<^verbatim>\<open>emProfiles[name][key]\<close>: a missing name or a missing key raises \<open>KeyError\<close>.\<close>

definition lookup_key ::
  "(string \<rightharpoonup> em_info) \<Rightarrow> string \<Rightarrow> (em_info \<Rightarrow> 'a option) \<Rightarrow> py_error + 'a" where
  "lookup_key emProfiles name key =
     (case emProfiles name of
        None \<Rightarrow> Inl KeyError
      | Some info \<Rightarrow> (case key info of None \<Rightarrow> Inl KeyError | Some v \<Rightarrow> Inr v))"

text \<open>
  The two read-back iterations of the script: \<^verbatim>\<open>for idx in range(numComps)\<close> appending
  \<^verbatim>\<open>model.best_values['g%d_center' % (idx + 1)]\<close> and
  \<^verbatim>\<open>model.best_values['g%d_sigma' % (idx + 1)]\<close> (reference lines), or the sigma alone.
\<close>

fun best_center_sigma ::
  "model_result \<Rightarrow> nat list \<Rightarrow> py_error + (npfloat list \<times> npfloat list)" where
  "best_center_sigma model [] = Inr ([], [])"
| "best_center_sigma model (idx # rest) =
     (case best_values model (gprefix idx @ ''center'') of
        None \<Rightarrow> Inl KeyError
      | Some c \<Rightarrow>
          (case best_values model (gprefix idx @ ''sigma'') of
             None \<Rightarrow> Inl KeyError
           | Some s \<Rightarrow>
               (case best_center_sigma model rest of
                  Inl e \<Rightarrow> Inl e
                | Inr (cl, sl) \<Rightarrow> Inr (c # cl, s # sl))))"

fun best_sigma :: "model_result \<Rightarrow> nat list \<Rightarrow> py_error + npfloat list" where
  "best_sigma model [] = Inr []"
| "best_sigma model (idx # rest) =
     (case best_values model (gprefix idx @ ''sigma'') of
        None \<Rightarrow> Inl KeyError
      | Some s \<Rightarrow>
          (case best_sigma model rest of
             Inl e \<Rightarrow> Inl e
           | Inr sl \<Rightarrow> Inr (s # sl)))"

text \<open>
  One turn of \<^verbatim>\<open>for emName, emInfo in emProfiles.items()\<close>, from the extraction of the
  line to the end of the two zone branches. \<^verbatim>\<open>wave1\<close>, \<^verbatim>\<open>flux1\<close> and \<^verbatim>\<open>flux1Error\<close> are
  what \<^verbatim>\<open>galaxyRegion.mask_emission_line\<close> returned (reading the spectra is outside the
  model). \<^verbatim>\<open>emInfo\<close> is the dictionary \<^verbatim>\<open>emProfiles[emName]\<close> itself, so the stores
  through \<^verbatim>\<open>emProfiles[emName]\<close> are followed by passing the updated dictionary along.
  The loop takes \<^verbatim>\<open>emName\<close> from the keys; for a name that is no key the model answers
  \<open>KeyError\<close>. The result is the dictionary after the turn and the pair
  \<^verbatim>\<open>(model, comps)\<close>; with a zone that is neither \<^verbatim>\<open>'low'\<close> nor \<^verbatim>\<open>'high'\<close> no fit is run and
  the pair is \<open>None\<close>. The lists for plotting and the report that follows the branches
  are not modelled.
\<close>

definition main_loop_body ::
  "fitter \<Rightarrow> (string \<rightharpoonup> em_info) \<Rightarrow> string \<Rightarrow> npfloat list \<Rightarrow> npfloat list
     \<Rightarrow> npfloat list option
     \<Rightarrow> py_error + ((string \<rightharpoonup> em_info)
                     \<times> (model_result \<times> (string \<rightharpoonup> npfloat list)) option)" where
  "main_loop_body fit emProfiles emName wave1 flux1 flux1Error =
     (case emProfiles emName of
        None \<Rightarrow> Inl KeyError
      | Some emInfo \<Rightarrow>
     (let vel1 = velocity (restWavelength emInfo) wave1;
          fittingProfile = FittingProfile_init vel1 flux1 (restWavelength emInfo) emName
                             (em_zone emInfo) flux1Error
      in
      if em_zone emInfo = ''low'' then
        (if emName = ''H-Alpha'' then
           (case lin_and_multi_gaussian fit fittingProfile numComps centerListLowZone
                   sigmaListLowZone (ampList emInfo) linSlopeLowZone linIntLowZone of
              Inl e \<Rightarrow> Inl e
            | Inr (fp, model, comps) \<Rightarrow>
                (case best_center_sigma model [0..<numComps] of
                   Inl e \<Rightarrow> Inl e
                 | Inr (cl, sl) \<Rightarrow>
                     Inr (emProfiles(emName \<mapsto> emInfo\<lparr>centerList := Some cl, sigmaList := Some sl\<rparr>),
                          Some (model, comps))))
         else if emName \<in> set [''NII-6584A'', ''SII-6717A'', ''OII-3729A''] then
           (case lookup_key emProfiles ''H-Alpha'' centerList of
              Inl e \<Rightarrow> Inl e
            | Inr cs \<Rightarrow>
           (let emInfo1 = emInfo\<lparr>centerList := Some cs\<rparr>;
                emProfiles1 = emProfiles(emName \<mapsto> emInfo1)
            in
            case lookup_key emProfiles1 ''H-Alpha'' centerList of
              Inl e \<Rightarrow> Inl e
            | Inr cList \<Rightarrow>
           (case lookup_key emProfiles1 ''H-Alpha'' sigmaList of
              Inl e \<Rightarrow> Inl e
            | Inr sList \<Rightarrow>
           (case lin_and_multi_gaussian fit fittingProfile numComps cList sList
                   (ampList emInfo1) linSlopeLowZone linIntLowZone of
              Inl e \<Rightarrow> Inl e
            | Inr (fp, model, comps) \<Rightarrow>
                (case best_sigma model [0..<numComps] of
                   Inl e \<Rightarrow> Inl e
                 | Inr sl \<Rightarrow>
                     Inr (emProfiles1(emName \<mapsto> emInfo1\<lparr>sigmaList := Some sl\<rparr>),
                          Some (model, comps)))))))
         else
           (case lookup_key emProfiles ''H-Alpha'' centerList of
              Inl e \<Rightarrow> Inl e
            | Inr cs \<Rightarrow>
           (let emInfo1 = emInfo\<lparr>centerList := Some cs\<rparr>;
                emProfiles1 = emProfiles(emName \<mapsto> emInfo1)
            in
            case (if emName = ''NII-6548A'' then lookup_key emProfiles1 ''NII-6584A'' sigmaList
                  else if emName = ''SII-6731A'' then lookup_key emProfiles1 ''SII-6717A'' sigmaList
                  else if emName = ''OII-3726A'' then lookup_key emProfiles1 ''OII-3729A'' sigmaList
                  else lookup_key emProfiles1 ''H-Alpha'' sigmaList) of
              Inl e \<Rightarrow> Inl e
            | Inr sg \<Rightarrow>
           (let emInfo2 = emInfo1\<lparr>sigmaList := Some sg\<rparr>;
                emProfiles2 = emProfiles1(emName \<mapsto> emInfo2)
            in
            case lin_and_multi_gaussian fit fittingProfile numComps cs sg
                   (ampList emInfo2) linSlopeLowZone linIntLowZone of
              Inl e \<Rightarrow> Inl e
            | Inr (fp, model, comps) \<Rightarrow> Inr (emProfiles2, Some (model, comps))))))
      else if em_zone emInfo = ''high'' then
        (if emName = ''OIII-5007A'' then
           (case lin_and_multi_gaussian fit fittingProfile numComps centerListHighZone
                   sigmaListHighZone (ampList emInfo) linSlopeHighZone linIntHighZone of
              Inl e \<Rightarrow> Inl e
            | Inr (fp, model, comps) \<Rightarrow>
                (case best_center_sigma model [0..<numComps] of
                   Inl e \<Rightarrow> Inl e
                 | Inr (cl, sl) \<Rightarrow>
                     Inr (emProfiles(emName \<mapsto> emInfo\<lparr>centerList := Some cl, sigmaList := Some sl\<rparr>),
                          Some (model, comps))))
         else
           (case lookup_key emProfiles ''OIII-5007A'' centerList of
              Inl e \<Rightarrow> Inl e
            | Inr cs \<Rightarrow>
           (let emInfo1 = emInfo\<lparr>centerList := Some cs\<rparr>;
                emProfiles1 = emProfiles(emName \<mapsto> emInfo1)
            in
            case lookup_key emProfiles1 ''OIII-5007A'' sigmaList of
              Inl e \<Rightarrow> Inl e
            | Inr sg \<Rightarrow>
           (let emInfo2 = emInfo1\<lparr>sigmaList := Some sg\<rparr>;
                emProfiles2 = emProfiles1(emName \<mapsto> emInfo2)
            in
            case lin_and_multi_gaussian fit fittingProfile numComps cs sg
                   (ampList emInfo2) linSlopeHighZone linIntHighZone of
              Inl e \<Rightarrow> Inl e
            | Inr (fp, model, comps) \<Rightarrow> Inr (emProfiles2, Some (model, comps))))))
      else Inr (emProfiles, None)))"

section \<open>Observations and vocabulary of the statements\<close>

text \<open>
  What a call of \<open>gaussian_component\<close> leaves in the parameters under a prefix: the
  vary-flags and the bounds of center, sigma and amplitude, in this order; \<open>None\<close> when
  the call raised or a parameter is missing.
\<close>

definition flags_of ::
  "py_error + (parameters \<times> string) \<Rightarrow> string \<Rightarrow> (bool \<times> bool \<times> bool) option" where
  "flags_of r prefix =
     (case r of
        Inl e \<Rightarrow> None
      | Inr (pars, g) \<Rightarrow>
          (case (pars (prefix @ ''center''), pars (prefix @ ''sigma''),
                 pars (prefix @ ''amplitude'')) of
             (Some pc, Some ps, Some pa) \<Rightarrow> Some (par_vary pc, par_vary ps, par_vary pa)
           | _ \<Rightarrow> None))"

definition bounds_of ::
  "py_error + (parameters \<times> string) \<Rightarrow> string
     \<Rightarrow> ((npfloat \<times> npfloat) \<times> (npfloat \<times> npfloat) \<times> (npfloat \<times> npfloat)) option" where
  "bounds_of r prefix =
     (case r of
        Inl e \<Rightarrow> None
      | Inr (pars, g) \<Rightarrow>
          (case (pars (prefix @ ''center''), pars (prefix @ ''sigma''),
                 pars (prefix @ ''amplitude'')) of
             (Some pc, Some ps, Some pa) \<Rightarrow>
               Some ((par_min pc, par_max pc), (par_min ps, par_max ps),
                     (par_min pa, par_max pa))
           | _ \<Rightarrow> None))"

text \<open>
  The words of the specification about the propagation of kinematics: the reference line
  of a zone, the line whose sigma list a line of the zone inherits (the three named pairs
  are lines of the low zone), and the lines whose center and sigma are both fixed.
\<close>

definition reference_line :: "string \<Rightarrow> string" where
  "reference_line z = (if z = ''low'' then ''H-Alpha'' else ''OIII-5007A'')"

definition sigma_source :: "string \<Rightarrow> string \<Rightarrow> string" where
  "sigma_source z name =
     (if z = ''low'' \<and> name = ''NII-6548A'' then ''NII-6584A''
      else if z = ''low'' \<and> name = ''SII-6731A'' then ''SII-6717A''
      else if z = ''low'' \<and> name = ''OII-3726A'' then ''OII-3729A''
      else reference_line z)"

definition center_sigma_fixed :: "string \<Rightarrow> string \<Rightarrow> bool" where
  "center_sigma_fixed z name \<longleftrightarrow>
     (z = ''low'' \<and> name \<notin> set [''H-Alpha'', ''NII-6584A'', ''SII-6717A'', ''OII-3729A''])
     \<or> (z = ''high'' \<and> name \<noteq> ''OIII-5007A'')"

text \<open>
  The contract of lmfit the propagation relies on: a parameter with \<^verbatim>\<open>vary=False\<close> is held
  at its value by the fit, and \<^verbatim>\<open>best_values\<close> reports it. It is a hypothesis about the
  fitter, never a fact of the model.
\<close>

definition keeps_fixed :: "fitter \<Rightarrow> bool" where
  "keeps_fixed fit \<longleftrightarrow>
     (\<forall>m d pars x w out k p.
        fit m d pars x w = Inr out \<longrightarrow> pars k = Some p \<longrightarrow> \<not> par_vary p
          \<longrightarrow> best_values out k = Some (par_value p))"

text \<open>
  A fitter to run the model on concrete inputs: it stops at the seeds, so every best value
  is the initial value, the best fit is the data and no component curve is evaluated.
\<close>

definition seed_fitter :: fitter where
  "seed_fitter m d pars x w =
     Inr \<lparr>best_values = (\<lambda>k. map_option par_value (pars k)), best_fit = d,
          eval_components = Map.empty\<rparr>"

text \<open>
  A fitter that moves what it may: every parameter that varies comes back one above its
  seed, every fixed parameter at its value. Its best values differ from the seeds, so a run
  tells the fitted lists from the seed lists.
\<close>

definition offset_fitter :: fitter where
  "offset_fitter m d pars x w =
     Inr \<lparr>best_values = (\<lambda>k. map_option
             (\<lambda>p. if par_vary p then fadd (par_value p) (Fin 1) else par_value p) (pars k)),
          best_fit = d, eval_components = Map.empty\<rparr>"

text \<open>
  The dictionary of the script after the turn of \<^verbatim>\<open>H-Alpha\<close>, when the fit of the reference line
  returned its seeds: the state in which the lines of the low zone are fitted.
\<close>

definition emProfiles_after_H_Alpha :: "string \<rightharpoonup> em_info" where
  "emProfiles_after_H_Alpha =
     (map_of emProfiles_initial)(''H-Alpha'' \<mapsto>
       \<lparr>Colour = ''b'', Order = 21, Filter = ''red'', minI = 1180, maxI = 1650,
        restWavelength = Fin 6562.82, ampList = [Fin 17.1348544, Fin 15.3253166, Fin 25.991642],
        em_zone = ''low'', sigmaT2 = Fin 164.96, centerList = Some centerListLowZone,
        sigmaList = Some sigmaListLowZone\<rparr>)"

section \<open>Properties\<close>

subsection \<open>Arithmetic of the float model\<close>

lemma fmul_NaN_right [simp]: "fmul x NaN = NaN"
  by (cases x) simp_all

lemma fdiv_NaN_right [simp]: "fdiv x NaN = NaN"
  by (cases x) simp_all

lemma fadd_NaN_right [simp]: "fadd x NaN = NaN"
  by (cases x) simp_all


subsection \<open>The velocity frame\<close>



subsection \<open>The dispersion corrector\<close>








text \<open>
  Claim C6, as the code has it. A filter other than \<open>blue\<close> and \<open>red\<close> leaves
  \<^verbatim>\<open>sigmaInstr\<close> unbound, and \<open>vel_dispersion\<close> raises Python's \<open>UnboundLocalError\<close>; the
  \<open>InvalidParameterError\<close> of the specification is raised nowhere.
\<close>

theorem vel_dispersion_unknown_filter:
  assumes "filt \<noteq> ''blue''" and "filt \<noteq> ''red''"
  shows "vel_dispersion so se st filt = Inl UnboundLocalError"
  using assms by (simp add: vel_dispersion_def)

theorem vel_dispersion_unknown_filter_witness:
  "vel_dispersion (Fin 10) (Fin 0.1) (Fin 0) ''green'' = Inl UnboundLocalError"
  using vel_dispersion_unknown_filter [of "''green''" "Fin 10" "Fin 0.1" "Fin 0"]
  by simp

text \<open>The claim as stated fails for the filter \<open>green\<close>: the error is not \<open>InvalidParameterError\<close>.\<close>

theorem vel_dispersion_green_counterexample:
  "vel_dispersion (Fin 10) (Fin 0.1) (Fin 0) ''green'' \<noteq> Inl InvalidParameterError"
  by (simp add: vel_dispersion_def)

subsection \<open>Components, weights and amplitudes\<close>

lemma field_keys_distinct [simp]:
  "prefix @ ''center'' \<noteq> prefix @ ''sigma''"
  "prefix @ ''center'' \<noteq> prefix @ ''amplitude''"
  "prefix @ ''sigma'' \<noteq> prefix @ ''amplitude''"
  "prefix @ ''sigma'' \<noteq> prefix @ ''center''"
  "prefix @ ''amplitude'' \<noteq> prefix @ ''center''"
  "prefix @ ''amplitude'' \<noteq> prefix @ ''sigma''"
  by simp_all

lemma default_arg_simps [simp]:
  "default_arg d None = d"
  "default_arg d (Some v) = v"
  by (simp_all add: default_arg_def)

lemma FittingProfile_init_fields [simp]:
  "vel (FittingProfile_init v f rw name z fe) = v"
  "flux (FittingProfile_init v f rw name z fe) = f"
  "fluxError (FittingProfile_init v f rw name z fe) = fe"
  "restWave (FittingProfile_init v f rw name z fe) = rw"
  "lineName (FittingProfile_init v f rw name z fe) = name"
  "zone (FittingProfile_init v f rw name z fe) = z"
  "linGaussParams (FittingProfile_init v f rw name z fe) = Map.empty"
  by (simp_all add: FittingProfile_init_def)

text \<open>
  Claim C1. The vary-flags of a Gaussian component follow from the zone and the name of
  the line: in the zone \<open>low\<close>, \<open>H-Alpha\<close> leaves center, sigma and amplitude free, the
  lines \<open>NII-6584A\<close>, \<open>SII-6717A\<close> and \<open>OII-3729A\<close> fix the center only, every other line
  fixes center and sigma; in the zone \<open>high\<close>, \<open>OIII-5007A\<close> leaves all three free and
  every other line fixes center and sigma. A bound that is not supplied is \<open>-inf\<close> (lower)
  or \<open>+inf\<close> (upper).
\<close>

theorem gaussian_component_vary_flags:
  "(let r = gaussian_component self pars prefix c s a cMin cMax sMin sMax aMin aMax in
   (zone self = ''low'' \<and> lineName self = ''H-Alpha''
      \<longrightarrow> flags_of r prefix = Some (True, True, True))
   \<and> (zone self = ''low'' \<and> lineName self \<in> {''NII-6584A'', ''SII-6717A'', ''OII-3729A''}
      \<longrightarrow> flags_of r prefix = Some (False, True, True))
   \<and> (zone self = ''low'' \<and> lineName self \<notin> {''H-Alpha'', ''NII-6584A'', ''SII-6717A'', ''OII-3729A''}
      \<longrightarrow> flags_of r prefix = Some (False, False, True))
   \<and> (zone self = ''high'' \<and> lineName self = ''OIII-5007A''
      \<longrightarrow> flags_of r prefix = Some (True, True, True))
   \<and> (zone self = ''high'' \<and> lineName self \<noteq> ''OIII-5007A''
      \<longrightarrow> flags_of r prefix = Some (False, False, True))
   \<and> (zone self = ''low'' \<or> zone self = ''high''
      \<longrightarrow> bounds_of r prefix
            = Some ((default_arg MInf cMin, default_arg PInf cMax),
                    (default_arg MInf sMin, default_arg PInf sMax),
                    (default_arg MInf aMin, default_arg PInf aMax))
        \<and> bounds_of (gaussian_component self pars prefix c s a None None None None None None)
             prefix = Some ((MInf, PInf), (MInf, PInf), (MInf, PInf))))"
  by (auto simp add: gaussian_component_def flags_of_def bounds_of_def default_arg_def Let_def)

theorem gaussian_component_vary_flags_witness:
  "flags_of (gaussian_component
       (FittingProfile_init [] [] (Fin 6562.82) ''H-Alpha'' ''low'' None) Map.empty ''g1_''
       (Fin 6349.20126) (Fin 19.2852694) (Fin 17.1348544) None None None None None None) ''g1_''
     = Some (True, True, True)
   \<and> flags_of (gaussian_component
       (FittingProfile_init [] [] (Fin 6583.41) ''NII-6584A'' ''low'' None) Map.empty ''g1_''
       (Fin 6349.20126) (Fin 19.2852694) (Fin 1.9724283) None None None None None None) ''g1_''
     = Some (False, True, True)
   \<and> flags_of (gaussian_component
       (FittingProfile_init [] [] (Fin 4861.33) ''H-Beta'' ''low'' None) Map.empty ''g1_''
       (Fin 6349.20126) (Fin 19.2852694) (Fin 7.1034076) None None None None None None) ''g1_''
     = Some (False, False, True)
   \<and> flags_of (gaussian_component
       (FittingProfile_init [] [] (Fin 5006.84) ''OIII-5007A'' ''high'' None) Map.empty ''g1_''
       (Fin 6348.46630) (Fin 15.9660139) (Fin 22.1758322) None None None None None None) ''g1_''
     = Some (True, True, True)
   \<and> flags_of (gaussian_component
       (FittingProfile_init [] [] (Fin 4958.91) ''OIII-4959A'' ''high'' None) Map.empty ''g1_''
       (Fin 6348.46630) (Fin 15.9660139) (Fin 6.8087454) None None None None None None) ''g1_''
     = Some (False, False, True)
   \<and> bounds_of (gaussian_component
       (FittingProfile_init [] [] (Fin 4958.91) ''OIII-4959A'' ''high'' None) Map.empty ''g1_''
       (Fin 6348.46630) (Fin 15.9660139) (Fin 6.8087454) None None None None None None) ''g1_''
     = Some ((MInf, PInf), (MInf, PInf), (MInf, PInf))"
  using
    gaussian_component_vary_flags [where self = "FittingProfile_init [] [] (Fin 6562.82) ''H-Alpha'' ''low'' None"
      and pars = Map.empty and prefix = "''g1_''" and c = "Fin 6349.20126" and s = "Fin 19.2852694"
      and a = "Fin 17.1348544" and cMin = None and cMax = None and sMin = None and sMax = None
      and aMin = None and aMax = None]
    gaussian_component_vary_flags [where self = "FittingProfile_init [] [] (Fin 6583.41) ''NII-6584A'' ''low'' None"
      and pars = Map.empty and prefix = "''g1_''" and c = "Fin 6349.20126" and s = "Fin 19.2852694"
      and a = "Fin 1.9724283" and cMin = None and cMax = None and sMin = None and sMax = None
      and aMin = None and aMax = None]
    gaussian_component_vary_flags [where self = "FittingProfile_init [] [] (Fin 4861.33) ''H-Beta'' ''low'' None"
      and pars = Map.empty and prefix = "''g1_''" and c = "Fin 6349.20126" and s = "Fin 19.2852694"
      and a = "Fin 7.1034076" and cMin = None and cMax = None and sMin = None and sMax = None
      and aMin = None and aMax = None]
    gaussian_component_vary_flags [where self = "FittingProfile_init [] [] (Fin 5006.84) ''OIII-5007A'' ''high'' None"
      and pars = Map.empty and prefix = "''g1_''" and c = "Fin 6348.46630" and s = "Fin 15.9660139"
      and a = "Fin 22.1758322" and cMin = None and cMax = None and sMin = None and sMax = None
      and aMin = None and aMax = None]
    gaussian_component_vary_flags [where self = "FittingProfile_init [] [] (Fin 4958.91) ''OIII-4959A'' ''high'' None"
      and pars = Map.empty and prefix = "''g1_''" and c = "Fin 6348.46630" and s = "Fin 15.9660139"
      and a = "Fin 6.8087454" and cMin = None and cMax = None and sMin = None and sMax = None
      and aMin = None and aMax = None]
  by (simp add: Let_def)

text \<open>
  Claim C10. The weights of a profile are \<open>None\<close> exactly when no flux uncertainty is
  given; otherwise they are the reciprocals \<open>1/fluxError\<close>, element by element, with no
  guard: where the uncertainty is zero the weight is \<open>inf\<close>, and nothing is raised.
\<close>

theorem weights_reciprocal:
  "(FittingProfile_weights self = None \<longleftrightarrow> fluxError self = None)
   \<and> (weights (FittingProfile_init v f rw name z fe) = None \<longleftrightarrow> fe = None)
   \<and> (\<forall>es. fe = Some es \<longrightarrow>
         weights (FittingProfile_init v f rw name z fe) = Some (map (\<lambda>e. fdiv (Fin 1) e) es)
         \<and> (\<forall>i<length es. es ! i = Fin 0 \<longrightarrow>
              (\<exists>ws. weights (FittingProfile_init v f rw name z fe) = Some ws \<and> ws ! i = PInf)))"
  by (auto simp add: FittingProfile_weights_def FittingProfile_init_def signed_inf_def
      split: option.splits)

theorem weights_reciprocal_witness:
  "weights (FittingProfile_init [] [Fin 1, Fin 2] (Fin 6562.82) ''H-Alpha'' ''low''
       (Some [Fin 0.5, Fin 0])) = Some [Fin 2, PInf]
   \<and> weights (FittingProfile_init [] [Fin 1, Fin 2] (Fin 6562.82) ''H-Alpha'' ''low'' None) = None"
  using weights_reciprocal [of "FittingProfile_init [] [Fin 1, Fin 2] (Fin 6562.82) ''H-Alpha'' ''low'' None"
      "[]" "[Fin 1, Fin 2]" "Fin 6562.82" "''H-Alpha''" "''low''" "Some [Fin 0.5, Fin 0]"]
    weights_reciprocal [of "FittingProfile_init [] [Fin 1, Fin 2] (Fin 6562.82) ''H-Alpha'' ''low'' None"
      "[]" "[Fin 1, Fin 2]" "Fin 6562.82" "''H-Alpha''" "''low''" "None"]
  by (simp add: signed_inf_def)

subsection \<open>Keys of the parameters\<close>

lemma digit_char_inj:
  assumes "d < 10" "d' < 10" "digit_char d = digit_char d'"
  shows "d = d'"
proof -
  have "distinct ''0123456789''" by simp
  moreover have "d < length ''0123456789''" "d' < length ''0123456789''"
    using assms by simp_all
  ultimately show ?thesis
    using assms(3) unfolding digit_char_def by (simp only: nth_eq_iff_index_eq)
qed

lemma digit_char_not_underscore:
  assumes "d < 10"
  shows "digit_char d \<noteq> CHR ''_''"
proof -
  have "digit_char d \<in> set ''0123456789''"
    unfolding digit_char_def using assms by (intro nth_mem) simp
  then show ?thesis by auto
qed

lemma string_of_nat_not_Nil: "string_of_nat n \<noteq> []"
  by (subst string_of_nat.simps) simp

lemma string_of_nat_no_underscore: "CHR ''_'' \<notin> set (string_of_nat n)"
proof (induction n rule: string_of_nat.induct)
  case (1 n)
  show ?case
  proof (cases "n < 10")
    case True
    then show ?thesis
      using digit_char_not_underscore [of n] by (subst string_of_nat.simps) auto
  next
    case False
    moreover have "n mod 10 < 10" by simp
    ultimately show ?thesis
      using 1 digit_char_not_underscore [of "n mod 10"]
      by (subst string_of_nat.simps) auto
  qed
qed

lemma string_of_nat_inj: "string_of_nat n = string_of_nat m \<Longrightarrow> n = m"
proof (induction n arbitrary: m rule: string_of_nat.induct)
  case (1 n)
  show ?case
  proof (cases "n < 10")
    case n: True
    show ?thesis
    proof (cases "m < 10")
      case True
      with n 1(2) show ?thesis
        by (simp add: string_of_nat.simps [of n] string_of_nat.simps [of m] digit_char_inj)
    next
      case False
      with n 1(2) string_of_nat_not_Nil [of "m div 10"] show ?thesis
        by (simp add: string_of_nat.simps [of n] string_of_nat.simps [of m])
    qed
  next
    case n: False
    show ?thesis
    proof (cases "m < 10")
      case True
      with n 1(2) string_of_nat_not_Nil [of "n div 10"] show ?thesis
        by (simp add: string_of_nat.simps [of n] string_of_nat.simps [of m])
    next
      case False
      with n 1(2) have eq: "string_of_nat (n div 10) = string_of_nat (m div 10)"
        and d: "digit_char (n mod 10) = digit_char (m mod 10)"
        by (simp_all add: string_of_nat.simps [of n] string_of_nat.simps [of m])
      from 1(1) [OF n eq] have "n div 10 = m div 10" .
      moreover from d have "n mod 10 = m mod 10"
        by (intro digit_char_inj) simp_all
      ultimately show ?thesis
        by (metis div_mult_mod_eq)
    qed
  qed
qed

lemma gprefix_append_inj:
  assumes "gprefix i @ f = gprefix j @ f'"
  shows "i = j \<and> f = f'"
proof -
  let ?P = "\<lambda>c. c \<noteq> CHR ''_''"
  have tw: "takeWhile ?P (string_of_nat n @ CHR ''_'' # r) = string_of_nat n" for n r
    using string_of_nat_no_underscore [of n]
    by (simp add: takeWhile_tail) (metis takeWhile_eq_all_conv)
  from assms have "string_of_nat (i + 1) @ CHR ''_'' # f = string_of_nat (j + 1) @ CHR ''_'' # f'"
    by (simp add: gprefix_def)
  then have "takeWhile ?P (string_of_nat (i + 1) @ CHR ''_'' # f)
      = takeWhile ?P (string_of_nat (j + 1) @ CHR ''_'' # f')"
    by simp
  then have "string_of_nat (i + 1) = string_of_nat (j + 1)"
    by (simp only: tw)
  then have "i = j" using string_of_nat_inj by fastforce
  with assms show ?thesis by simp
qed

lemma gprefix_numerals:
  "gprefix 0 = ''g1_''" "gprefix (Suc 0) = ''g2_''" "gprefix 2 = ''g3_''"
  by (simp_all add: gprefix_def string_of_nat.simps digit_char_def)

lemma all_less_3: "(\<forall>i<3. P i) \<longleftrightarrow> P 0 \<and> P (Suc 0) \<and> P (2::nat)"
proof -
  have "i < 3 \<longleftrightarrow> i = 0 \<or> i = Suc 0 \<or> i = 2" for i :: nat by arith
  then show ?thesis by auto
qed

subsection \<open>The loop over the components\<close>

lemma gaussian_component_Inr:
  assumes "gaussian_component self pars prefix c s a cMin cMax sMin sMax aMin aMax = Inr (pars', g)"
  shows "\<exists>vc vs. pars' = pars(prefix @ ''center'' \<mapsto>
                 \<lparr>par_value = c, par_min = default_arg MInf cMin,
                  par_max = default_arg PInf cMax, par_vary = vc\<rparr>,
               prefix @ ''sigma'' \<mapsto>
                 \<lparr>par_value = s, par_min = default_arg MInf sMin,
                  par_max = default_arg PInf sMax, par_vary = vs\<rparr>,
               prefix @ ''amplitude'' \<mapsto>
                 \<lparr>par_value = a, par_min = default_arg MInf aMin,
                  par_max = default_arg PInf aMax, par_vary = True\<rparr>)
           \<and> g = prefix
           \<and> (center_sigma_fixed (zone self) (lineName self) \<longrightarrow> \<not> vc \<and> \<not> vs)"
proof -
  let ?flags = "(if zone self = ''low'' then
              (if lineName self = ''H-Alpha'' then Some (True, True, True)
               else if lineName self \<in> set [''NII-6584A'', ''SII-6717A'', ''OII-3729A'']
                 then Some (False, True, True)
               else Some (False, False, True))
            else if zone self = ''high'' then
              (if lineName self = ''OIII-5007A'' then Some (True, True, True)
               else Some (False, False, True))
            else None)"
  from assms obtain vc vs va where fl: "?flags = Some (vc, vs, va)"
    unfolding gaussian_component_def by (cases ?flags) auto
  then have va: "va = True"
    by (simp split: if_splits)
  from fl have fixed: "center_sigma_fixed (zone self) (lineName self) \<longrightarrow> \<not> vc \<and> \<not> vs"
    by (simp add: center_sigma_fixed_def split: if_splits)
  from assms have "pars' = pars(prefix @ ''center'' \<mapsto>
                 \<lparr>par_value = c, par_min = default_arg MInf cMin,
                  par_max = default_arg PInf cMax, par_vary = vc\<rparr>,
               prefix @ ''sigma'' \<mapsto>
                 \<lparr>par_value = s, par_min = default_arg MInf sMin,
                  par_max = default_arg PInf sMax, par_vary = vs\<rparr>,
               prefix @ ''amplitude'' \<mapsto>
                 \<lparr>par_value = a, par_min = default_arg MInf aMin,
                  par_max = default_arg PInf aMax, par_vary = True\<rparr>) \<and> g = prefix"
    unfolding gaussian_component_def fl va by (auto simp add: Let_def)
  with fixed show ?thesis by blast
qed

lemma gaussian_component_defined:
  assumes "zone self = ''low'' \<or> zone self = ''high''"
  shows "\<exists>pars'. gaussian_component self pars prefix c s a cMin cMax sMin sMax aMin aMax
           = Inr (pars', prefix)"
  using assms by (auto simp add: gaussian_component_def Let_def)

lemma gaussian_components_Cons_Inr:
  assumes "gaussian_components self pars cL sL aL (j # rest) = Inr (pars', gs)"
  obtains p1 g1 g2 where
    "gaussian_component self pars (gprefix j) (cL ! j) (sL ! j) (aL ! j)
       None None None None None None = Inr (p1, g1)"
    and "gaussian_components self p1 cL sL aL rest = Inr (pars', g2)"
proof -
  from assms have len: "j < length cL \<and> j < length sL \<and> j < length aL"
    by (cases "j < length cL \<and> j < length sL \<and> j < length aL") simp_all
  show ?thesis
  proof (cases "gaussian_component self pars (gprefix j) (cL ! j) (sL ! j) (aL ! j)
       None None None None None None")
    case (Inl e)
    with assms len show ?thesis by simp
  next
    case one: (Inr pg)
    obtain p1 g1 where pg: "pg = (p1, g1)" by (cases pg)
    show ?thesis
    proof (cases "gaussian_components self p1 cL sL aL rest")
      case (Inl e)
      with assms len one pg show ?thesis by simp
    next
      case more: (Inr pg2)
      obtain p2 g2 where pg2: "pg2 = (p2, g2)" by (cases pg2)
      from assms len one pg more pg2 have "pars' = p2" by simp
      with one pg more pg2 that show ?thesis by simp
    qed
  qed
qed

lemma gaussian_component_other:
  assumes "gaussian_component self pars (gprefix j) c s a cMin cMax sMin sMax aMin aMax
             = Inr (pars', g)"
    and "i \<noteq> j"
  shows "pars' (gprefix i @ f) = pars (gprefix i @ f)"
proof -
  have ne: "gprefix i @ f \<noteq> gprefix j @ f'" for f'
    using gprefix_append_inj [of i f j f'] assms(2) by blast
  from gaussian_component_Inr [OF assms(1)] obtain vc vs where
    "pars' = pars(gprefix j @ ''center'' \<mapsto>
                 \<lparr>par_value = c, par_min = default_arg MInf cMin,
                  par_max = default_arg PInf cMax, par_vary = vc\<rparr>,
               gprefix j @ ''sigma'' \<mapsto>
                 \<lparr>par_value = s, par_min = default_arg MInf sMin,
                  par_max = default_arg PInf sMax, par_vary = vs\<rparr>,
               gprefix j @ ''amplitude'' \<mapsto>
                 \<lparr>par_value = a, par_min = default_arg MInf aMin,
                  par_max = default_arg PInf aMax, par_vary = True\<rparr>)"
    by blast
  then show ?thesis by (simp add: ne)
qed

lemma gaussian_components_other:
  assumes "gaussian_components self pars cL sL aL idxs = Inr (pars', gs)" "i \<notin> set idxs"
  shows "pars' (gprefix i @ f) = pars (gprefix i @ f)"
  using assms
proof (induction idxs arbitrary: pars gs)
  case Nil
  then show ?case by simp
next
  case (Cons j rest)
  from Cons.prems(1) obtain p1 g1 g2 where
    one: "gaussian_component self pars (gprefix j) (cL ! j) (sL ! j) (aL ! j)
            None None None None None None = Inr (p1, g1)"
    and more: "gaussian_components self p1 cL sL aL rest = Inr (pars', g2)"
    by (rule gaussian_components_Cons_Inr)
  from Cons.prems(2) have ij: "i \<noteq> j" and notin: "i \<notin> set rest" by simp_all
  from gaussian_component_other [OF one ij] have "p1 (gprefix i @ f) = pars (gprefix i @ f)" .
  with Cons.IH [OF more notin] show ?case by simp
qed

lemma gaussian_components_lookup:
  assumes "gaussian_components self pars cL sL aL idxs = Inr (pars', gs)"
    and "distinct idxs" and "i \<in> set idxs"
  shows "\<exists>vc vs.
      pars' (gprefix i @ ''center'')
        = Some \<lparr>par_value = cL ! i, par_min = MInf, par_max = PInf, par_vary = vc\<rparr>
    \<and> pars' (gprefix i @ ''sigma'')
        = Some \<lparr>par_value = sL ! i, par_min = MInf, par_max = PInf, par_vary = vs\<rparr>
    \<and> pars' (gprefix i @ ''amplitude'')
        = Some \<lparr>par_value = aL ! i, par_min = MInf, par_max = PInf, par_vary = True\<rparr>
    \<and> (center_sigma_fixed (zone self) (lineName self) \<longrightarrow> \<not> vc \<and> \<not> vs)"
  using assms
proof (induction idxs arbitrary: pars gs)
  case Nil
  then show ?case by simp
next
  case (Cons j rest)
  from Cons.prems(1) obtain p1 g1 g2 where
    one: "gaussian_component self pars (gprefix j) (cL ! j) (sL ! j) (aL ! j)
            None None None None None None = Inr (p1, g1)"
    and more: "gaussian_components self p1 cL sL aL rest = Inr (pars', g2)"
    by (rule gaussian_components_Cons_Inr)
  show ?case
  proof (cases "i = j")
    case True
    with Cons.prems(2) have notin: "i \<notin> set rest" by simp
    have keep: "pars' (gprefix i @ f) = p1 (gprefix i @ f)" for f
      using gaussian_components_other [OF more notin] .
    from gaussian_component_Inr [OF one] obtain vc vs where
      p1: "p1 = pars(gprefix j @ ''center'' \<mapsto>
                 \<lparr>par_value = cL ! j, par_min = default_arg MInf None,
                  par_max = default_arg PInf None, par_vary = vc\<rparr>,
               gprefix j @ ''sigma'' \<mapsto>
                 \<lparr>par_value = sL ! j, par_min = default_arg MInf None,
                  par_max = default_arg PInf None, par_vary = vs\<rparr>,
               gprefix j @ ''amplitude'' \<mapsto>
                 \<lparr>par_value = aL ! j, par_min = default_arg MInf None,
                  par_max = default_arg PInf None, par_vary = True\<rparr>)"
      and fx: "center_sigma_fixed (zone self) (lineName self) \<longrightarrow> \<not> vc \<and> \<not> vs"
      by blast
    have "pars' (gprefix i @ ''center'')
        = Some \<lparr>par_value = cL ! i, par_min = MInf, par_max = PInf, par_vary = vc\<rparr>"
      unfolding keep p1 using True by simp
    moreover have "pars' (gprefix i @ ''sigma'')
        = Some \<lparr>par_value = sL ! i, par_min = MInf, par_max = PInf, par_vary = vs\<rparr>"
      unfolding keep p1 using True by simp
    moreover have "pars' (gprefix i @ ''amplitude'')
        = Some \<lparr>par_value = aL ! i, par_min = MInf, par_max = PInf, par_vary = True\<rparr>"
      unfolding keep p1 using True by simp
    ultimately show ?thesis using fx by blast
  next
    case False
    with Cons.prems have "distinct rest" "i \<in> set rest" by simp_all
    from Cons.IH [OF more this] show ?thesis .
  qed
qed

lemma gaussian_components_defined:
  assumes "zone self = ''low'' \<or> zone self = ''high''"
    and "\<forall>i\<in>set idxs. i < length cL \<and> i < length sL \<and> i < length aL"
  shows "\<exists>pars'. gaussian_components self pars cL sL aL idxs = Inr (pars', map gprefix idxs)"
  using assms(2)
proof (induction idxs arbitrary: pars)
  case Nil
  then show ?case by simp
next
  case (Cons j rest)
  from gaussian_component_defined [OF assms(1)] obtain p1 where
    one: "gaussian_component self pars (gprefix j) (cL ! j) (sL ! j) (aL ! j)
            None None None None None None = Inr (p1, gprefix j)"
    by blast
  from Cons.prems have "\<forall>i\<in>set rest. i < length cL \<and> i < length sL \<and> i < length aL"
    by simp
  from Cons.IH [OF this] obtain p2 where
    "gaussian_components self p1 cL sL aL rest = Inr (p2, map gprefix rest)"
    by blast
  with one Cons.prems show ?case by simp
qed

subsection \<open>The fit of one profile\<close>

lemma amplitude_loop_sum:
  assumes "\<forall>i\<in>set idxs. best_values modelFit (gprefix i @ ''amplitude'') = Some (Fin (a i))"
  shows "amplitude_loop modelFit (Fin t) idxs = Inr (Fin (t + sum_list (map a idxs)))"
  using assms by (induction idxs arbitrary: t) (simp_all add: add.assoc)

lemma amplitude_loop_defined:
  assumes "\<forall>i\<in>set idxs. \<exists>v. best_values modelFit (gprefix i @ ''amplitude'') = Some v"
  shows "\<exists>v. amplitude_loop modelFit t idxs = Inr v"
  using assms by (induction idxs arbitrary: t) auto

lemma gaussian_component_restWave:
  "gaussian_component (self\<lparr>restWave := r\<rparr>) pars prefix c s a cMin cMax sMin sMax aMin aMax
     = gaussian_component self pars prefix c s a cMin cMax sMin sMax aMin aMax"
  by (simp add: gaussian_component_def)

lemma gaussian_components_restWave:
  "gaussian_components (self\<lparr>restWave := r\<rparr>) pars cL sL aL idxs
     = gaussian_components self pars cL sL aL idxs"
  by (induction idxs arbitrary: pars)
     (auto simp add: gaussian_component_restWave split: sum.splits)

lemma lin_and_multi_gaussian_Inr:
  assumes "lin_and_multi_gaussian fit self n cL sL aL lS lI = Inr (self', out, comps)"
  shows "\<exists>pars gList. gaussian_components self (linear_params lS lI) cL sL aL [0..<n]
                         = Inr (pars, gList)
           \<and> fit (''lin_'' # gList) (flux self) pars (vel self) (weights self) = Inr out
           \<and> comps = eval_components out"
  using assms
  by (auto simp add: lin_and_multi_gaussian_def Let_def split: sum.splits prod.splits)

lemma keeps_fixed_seed_fitter: "keeps_fixed seed_fitter"
  by (auto simp add: keeps_fixed_def seed_fitter_def)

lemma seed_fitter_run:
  assumes "zone self = ''low'' \<or> zone self = ''high''"
    and "n \<le> length cL" "n \<le> length sL" "n \<le> length aL"
  shows "\<exists>self' out comps.
           lin_and_multi_gaussian seed_fitter self n cL sL aL lS lI = Inr (self', out, comps)"
proof -
  have "\<forall>i\<in>set [0..<n]. i < length cL \<and> i < length sL \<and> i < length aL"
    using assms(2-4) by auto
  from gaussian_components_defined [OF assms(1) this] obtain pars where
    built: "gaussian_components self (linear_params lS lI) cL sL aL [0..<n]
              = Inr (pars, map gprefix [0..<n])"
    by blast
  define out where "out = \<lparr>best_values = (\<lambda>k. map_option par_value (pars k)),
      best_fit = flux self, eval_components = Map.empty\<rparr>"
  have "\<exists>v. best_values out (gprefix i @ ''amplitude'') = Some v" if "i \<in> set [0..<n]" for i
    using gaussian_components_lookup [OF built _ that] by (auto simp add: out_def)
  then have "\<exists>v. amplitude_loop out (Fin 0) [0..<n] = Inr v"
    by (intro amplitude_loop_defined) blast
  then obtain v where "amplitude_loop out (Fin 0) [0..<n] = Inr v" ..
  with built show ?thesis
    by (simp add: lin_and_multi_gaussian_def seed_fitter_def out_def get_amplitude_def Let_def)
qed

lemma seed_fitter_best_values:
  assumes run: "lin_and_multi_gaussian seed_fitter self n cL sL aL lS lI = Inr (self', model, comps)"
    and i: "i < n"
  shows "best_values model (gprefix i @ ''center'') = Some (cL ! i)
       \<and> best_values model (gprefix i @ ''sigma'') = Some (sL ! i)"
proof -
  from lin_and_multi_gaussian_Inr [OF run] obtain pars gList where
    built: "gaussian_components self (linear_params lS lI) cL sL aL [0..<n] = Inr (pars, gList)"
    and fitted: "seed_fitter (''lin_'' # gList) (flux self) pars (vel self) (weights self)
                   = Inr model"
    by blast
  from i have "i \<in> set [0..<n]" by simp
  from gaussian_components_lookup [OF built _ this] fitted show ?thesis
    by (auto simp add: seed_fitter_def)
qed

lemma fixed_parameters_reproduced:
  assumes run: "lin_and_multi_gaussian fit self n cL sL aL lS lI = Inr (self', model, comps)"
    and fixed: "center_sigma_fixed (zone self) (lineName self)"
    and keeps: "keeps_fixed fit"
    and i: "i < n"
  shows "best_values model (gprefix i @ ''center'') = Some (cL ! i)
       \<and> best_values model (gprefix i @ ''sigma'') = Some (sL ! i)"
proof -
  from lin_and_multi_gaussian_Inr [OF run] obtain pars gList where
    built: "gaussian_components self (linear_params lS lI) cL sL aL [0..<n] = Inr (pars, gList)"
    and fitted: "fit (''lin_'' # gList) (flux self) pars (vel self) (weights self) = Inr model"
    by blast
  from i have "i \<in> set [0..<n]" by simp
  from gaussian_components_lookup [OF built _ this] fixed
  have c: "pars (gprefix i @ ''center'')
        = Some \<lparr>par_value = cL ! i, par_min = MInf, par_max = PInf, par_vary = False\<rparr>"
    and s: "pars (gprefix i @ ''sigma'')
        = Some \<lparr>par_value = sL ! i, par_min = MInf, par_max = PInf, par_vary = False\<rparr>"
    by auto
  from keeps fitted c have "best_values model (gprefix i @ ''center'') = Some (cL ! i)"
    unfolding keeps_fixed_def by fastforce
  moreover from keeps fitted s have "best_values model (gprefix i @ ''sigma'') = Some (sL ! i)"
    unfolding keeps_fixed_def by fastforce
  ultimately show ?thesis ..
qed

text \<open>
  Claim C9. \<open>get_amplitude\<close> returns the sum of the best-fit amplitudes of the \<open>N\<close>
  components times \<open>restWave / 300000\<close>. \<open>lin_and_multi_gaussian\<close> does not use that value:
  the pair of fit result and components it returns is the fitter's result on the
  parameters it built and that result's component curves, and it is the same for every
  rest wavelength of the profile.
\<close>

theorem get_amplitude_sum_discarded:
  "((\<forall>i<n. best_values modelFit (gprefix i @ ''amplitude'') = Some (Fin (a i)))
        \<and> restWave self = Fin rw
      \<longrightarrow> get_amplitude self n modelFit = Inr (Fin ((\<Sum>i<n. a i) * rw / 300000)))
   \<and> map_sum id snd (lin_and_multi_gaussian fit (self\<lparr>restWave := rw'\<rparr>) n cL sL aL lS lI)
       = map_sum id snd (lin_and_multi_gaussian fit self n cL sL aL lS lI)
   \<and> (lin_and_multi_gaussian fit self n cL sL aL lS lI = Inr (self', out, comps) \<longrightarrow>
        (\<exists>pars gList. gaussian_components self (linear_params lS lI) cL sL aL [0..<n]
                         = Inr (pars, gList)
           \<and> fit (''lin_'' # gList) (flux self) pars (vel self) (weights self) = Inr out
           \<and> comps = eval_components out))"
proof (intro conjI impI)
  assume h: "(\<forall>i<n. best_values modelFit (gprefix i @ ''amplitude'') = Some (Fin (a i)))
        \<and> restWave self = Fin rw"
  then have "\<forall>i\<in>set [0..<n]. best_values modelFit (gprefix i @ ''amplitude'') = Some (Fin (a i))"
    by simp
  then have "amplitude_loop modelFit (Fin 0) [0..<n] = Inr (Fin (0 + sum_list (map a [0..<n])))"
    by (rule amplitude_loop_sum)
  moreover have "sum_list (map a [0..<n]) = (\<Sum>i<n. a i)"
    by (simp add: interv_sum_list_conv_sum_set_nat atLeast0LessThan)
  ultimately show "get_amplitude self n modelFit = Inr (Fin ((\<Sum>i<n. a i) * rw / 300000))"
    using h by (simp add: get_amplitude_def SpOfLi_def)
next
  show "map_sum id snd (lin_and_multi_gaussian fit (self\<lparr>restWave := rw'\<rparr>) n cL sL aL lS lI)
       = map_sum id snd (lin_and_multi_gaussian fit self n cL sL aL lS lI)"
  proof (cases "gaussian_components self (linear_params lS lI) cL sL aL [0..<n]")
    case (Inl e)
    then show ?thesis
      by (simp add: lin_and_multi_gaussian_def gaussian_components_restWave)
  next
    case (Inr pg)
    obtain pars gList where pg: "pg = (pars, gList)" by (cases pg)
    show ?thesis
    proof (cases "fit (''lin_'' # gList) (flux self) pars (vel self) (weights self)")
      case (Inl e)
      with Inr pg show ?thesis
        by (simp add: lin_and_multi_gaussian_def gaussian_components_restWave)
    next
      case fitted: (Inr out)
      have ga: "get_amplitude (self\<lparr>restWave := rw', linGaussParams := pars\<rparr>) n out
              = Inl e \<longleftrightarrow> get_amplitude (self\<lparr>linGaussParams := pars\<rparr>) n out = Inl e" for e
        by (simp add: get_amplitude_def split: sum.splits)
      show ?thesis
      proof (cases "get_amplitude (self\<lparr>linGaussParams := pars\<rparr>) n out")
        case (Inl e)
        moreover from Inl ga
        have "get_amplitude (self\<lparr>restWave := rw', linGaussParams := pars\<rparr>) n out = Inl e"
          by simp
        ultimately show ?thesis
          using Inr pg fitted
          by (simp add: lin_and_multi_gaussian_def gaussian_components_restWave Let_def)
      next
        case amp: (Inr v)
        with ga obtain v'
          where "get_amplitude (self\<lparr>restWave := rw', linGaussParams := pars\<rparr>) n out = Inr v'"
          by (cases "get_amplitude (self\<lparr>restWave := rw', linGaussParams := pars\<rparr>) n out")
             auto
        with amp show ?thesis
          using Inr pg fitted
          by (simp add: lin_and_multi_gaussian_def gaussian_components_restWave Let_def)
      qed
    qed
  qed
next
  assume "lin_and_multi_gaussian fit self n cL sL aL lS lI = Inr (self', out, comps)"
  then show "\<exists>pars gList. gaussian_components self (linear_params lS lI) cL sL aL [0..<n]
                         = Inr (pars, gList)
           \<and> fit (''lin_'' # gList) (flux self) pars (vel self) (weights self) = Inr out
           \<and> comps = eval_components out"
    by (auto simp add: lin_and_multi_gaussian_def Let_def split: sum.splits prod.splits)
qed

theorem get_amplitude_sum_discarded_witness:
  "get_amplitude (FittingProfile_init [] [] (Fin 6562.82) ''H-Alpha'' ''low'' None) 3
      \<lparr>best_values = [''g1_amplitude'' \<mapsto> Fin 17.1348544, ''g2_amplitude'' \<mapsto> Fin 15.3253166,
                      ''g3_amplitude'' \<mapsto> Fin 25.991642],
       best_fit = [], eval_components = Map.empty\<rparr>
     = Inr (Fin ((17.1348544 + 15.3253166 + 25.991642) * 6562.82 / 300000))
   \<and> (\<exists>self' out comps pars gList.
        lin_and_multi_gaussian seed_fitter
            (FittingProfile_init [Fin 0, Fin 1] [Fin 1, Fin 2] (Fin 6562.82) ''H-Alpha'' ''low'' None)
            3 centerListLowZone sigmaListLowZone
            [Fin 17.1348544, Fin 15.3253166, Fin 25.991642] linSlopeLowZone linIntLowZone
          = Inr (self', out, comps)
      \<and> gaussian_components
            (FittingProfile_init [Fin 0, Fin 1] [Fin 1, Fin 2] (Fin 6562.82) ''H-Alpha'' ''low'' None)
            (linear_params linSlopeLowZone linIntLowZone) centerListLowZone sigmaListLowZone
            [Fin 17.1348544, Fin 15.3253166, Fin 25.991642] [0..<3] = Inr (pars, gList)
      \<and> seed_fitter (''lin_'' # gList) [Fin 1, Fin 2] pars [Fin 0, Fin 1] None = Inr out
      \<and> comps = eval_components out)"
proof -
  let ?out = "\<lparr>best_values = [''g1_amplitude'' \<mapsto> Fin 17.1348544, ''g2_amplitude'' \<mapsto> Fin 15.3253166,
                      ''g3_amplitude'' \<mapsto> Fin 25.991642],
       best_fit = [], eval_components = Map.empty\<rparr>"
  let ?a = "\<lambda>i. [17.1348544, 15.3253166, 25.991642] ! i :: real"
  let ?prof = "FittingProfile_init [] [] (Fin 6562.82) ''H-Alpha'' ''low'' None"
  let ?fp = "FittingProfile_init [Fin 0, Fin 1] [Fin 1, Fin 2] (Fin 6562.82) ''H-Alpha'' ''low'' None"
  let ?amps = "[Fin 17.1348544, Fin 15.3253166, Fin 25.991642]"
  have keys: "(\<forall>i<3. best_values ?out (gprefix i @ ''amplitude'') = Some (Fin (?a i)))
      \<and> restWave ?prof = Fin 6562.82"
    by (simp add: all_less_3 gprefix_numerals)
  have "\<exists>self' out comps. lin_and_multi_gaussian seed_fitter ?fp 3 centerListLowZone
      sigmaListLowZone ?amps linSlopeLowZone linIntLowZone = Inr (self', out, comps)"
    by (rule seed_fitter_run) (simp_all add: centerListLowZone_def sigmaListLowZone_def)
  then obtain self' out comps where lin: "lin_and_multi_gaussian seed_fitter ?fp 3
      centerListLowZone sigmaListLowZone ?amps linSlopeLowZone linIntLowZone
        = Inr (self', out, comps)"
    by blast
  note inst = get_amplitude_sum_discarded [where n = 3 and modelFit = ?out and a = ?a
      and self = ?prof and rw = "6562.82"]
  from inst keys have "get_amplitude ?prof 3 ?out = Inr (Fin ((\<Sum>i<3. ?a i) * 6562.82 / 300000))"
    by blast
  moreover have "(\<Sum>i<3. ?a i) = 17.1348544 + 15.3253166 + 25.991642"
    by (simp add: numeral_3_eq_3)
  ultimately have first: "get_amplitude ?prof 3 ?out
     = Inr (Fin ((17.1348544 + 15.3253166 + 25.991642) * 6562.82 / 300000))"
    by simp
  note inst2 = get_amplitude_sum_discarded [where fit = seed_fitter and self = ?fp and n = 3
      and cL = centerListLowZone and sL = sigmaListLowZone and aL = ?amps
      and lS = linSlopeLowZone and lI = linIntLowZone and self' = self' and out = out
      and comps = comps]
  from inst2 lin have "\<exists>pars gList. gaussian_components ?fp
        (linear_params linSlopeLowZone linIntLowZone) centerListLowZone sigmaListLowZone
        ?amps [0..<3] = Inr (pars, gList)
      \<and> seed_fitter (''lin_'' # gList) (flux ?fp) pars (vel ?fp) (weights ?fp) = Inr out
      \<and> comps = eval_components out"
    by blast
  then obtain pars gList where built: "gaussian_components ?fp
        (linear_params linSlopeLowZone linIntLowZone) centerListLowZone sigmaListLowZone
        ?amps [0..<3] = Inr (pars, gList)"
      and fitted: "seed_fitter (''lin_'' # gList) [Fin 1, Fin 2] pars [Fin 0, Fin 1] None = Inr out"
      and cs: "comps = eval_components out"
    by (auto simp add: FittingProfile_init_def FittingProfile_weights_def)
  have B: "\<exists>self' out comps pars gList.
        lin_and_multi_gaussian seed_fitter ?fp 3 centerListLowZone sigmaListLowZone
            ?amps linSlopeLowZone linIntLowZone = Inr (self', out, comps)
      \<and> gaussian_components ?fp (linear_params linSlopeLowZone linIntLowZone)
            centerListLowZone sigmaListLowZone ?amps [0..<3] = Inr (pars, gList)
      \<and> seed_fitter (''lin_'' # gList) [Fin 1, Fin 2] pars [Fin 0, Fin 1] None = Inr out
      \<and> comps = eval_components out"
    using lin built fitted cs
    by (intro exI [of _ self'] exI [of _ out] exI [of _ comps] exI [of _ pars]
          exI [of _ gList] conjI)
  from first B show ?thesis by (rule conjI)
qed

subsection \<open>Propagation of the kinematics\<close>

lemma lookup_key_Inl: "lookup_key m k key = Inl e \<Longrightarrow> e = KeyError"
  by (auto simp add: lookup_key_def split: option.splits)

lemma lookup_key_Some:
  "m k = Some info \<Longrightarrow> key info = Some v \<Longrightarrow> lookup_key m k key = Inr v"
  by (simp add: lookup_key_def)

lemma lookup_key_upd_other:
  "k \<noteq> n \<Longrightarrow> lookup_key (m(n \<mapsto> x)) k key = lookup_key m k key"
  by (simp add: lookup_key_def)

lemma after_H_Alpha_lookups:
  "emProfiles_after_H_Alpha ''H-Alpha'' = Some
       \<lparr>Colour = ''b'', Order = 21, Filter = ''red'', minI = 1180, maxI = 1650,
        restWavelength = Fin 6562.82, ampList = [Fin 17.1348544, Fin 15.3253166, Fin 25.991642],
        em_zone = ''low'', sigmaT2 = Fin 164.96, centerList = Some centerListLowZone,
        sigmaList = Some sigmaListLowZone\<rparr>"
  "emProfiles_after_H_Alpha ''H-Beta'' = Some
       \<lparr>Colour = ''g'', Order = 36, Filter = ''blue'', minI = 2150, maxI = 2800,
        restWavelength = Fin 4861.33, ampList = [Fin 7.1034076, Fin 6.9433769, Fin 9.0872379],
        em_zone = ''low'', sigmaT2 = Fin 164.96, centerList = None, sigmaList = None\<rparr>"
  "emProfiles_after_H_Alpha ''NII-6584A'' = Some
       \<lparr>Colour = ''y'', Order = 21, Filter = ''red'', minI = 1750, maxI = 2050,
        restWavelength = Fin 6583.41, ampList = [Fin 1.9724283, Fin 2.2865144, Fin 1.5250645],
        em_zone = ''low'', sigmaT2 = Fin 11.87, centerList = None, sigmaList = None\<rparr>"
  "emProfiles_after_H_Alpha ''NII-6548A'' = Some
       \<lparr>Colour = ''m'', Order = 21, Filter = ''red'', minI = 1000, maxI = 1300,
        restWavelength = Fin 6548.03, ampList = [Fin 0.6269642, Fin 0.7364259, Fin 0.5323627],
        em_zone = ''low'', sigmaT2 = Fin 11.87, centerList = None, sigmaList = None\<rparr>"
  by (simp_all add: emProfiles_after_H_Alpha_def emProfiles_initial_def)

text \<open>
  The example dictionary is what the script holds after its first turn: the turn of
  \<^verbatim>\<open>H-Alpha\<close> on the initial dictionary, with the fitter that returns the seeds.
\<close>

lemma H_Alpha_turn_seed_fitter:
  "\<exists>model comps.
     main_loop_body seed_fitter (map_of emProfiles_initial) ''H-Alpha'' wave1 flux1 flux1Error
       = Inr (emProfiles_after_H_Alpha, Some (model, comps))"
proof -
  let ?info = "\<lparr>Colour = ''b'', Order = 21, Filter = ''red'', minI = 1180, maxI = 1650,
        restWavelength = Fin 6562.82, ampList = [Fin 17.1348544, Fin 15.3253166, Fin 25.991642],
        em_zone = ''low'', sigmaT2 = Fin 164.96, centerList = None, sigmaList = None\<rparr>"
  let ?prof = "FittingProfile_init (velocity (restWavelength ?info) wave1) flux1
      (restWavelength ?info) ''H-Alpha'' ''low'' flux1Error"
  have info: "map_of emProfiles_initial ''H-Alpha'' = Some ?info"
    by (simp add: emProfiles_initial_def)
  have "\<exists>self' out comps. lin_and_multi_gaussian seed_fitter ?prof numComps centerListLowZone
      sigmaListLowZone (ampList ?info) linSlopeLowZone linIntLowZone = Inr (self', out, comps)"
    by (rule seed_fitter_run)
       (simp_all add: numComps_def centerListLowZone_def sigmaListLowZone_def)
  then obtain self' model comps where lin: "lin_and_multi_gaussian seed_fitter ?prof numComps
      centerListLowZone sigmaListLowZone (ampList ?info) linSlopeLowZone linIntLowZone
        = Inr (self', model, comps)"
    by blast
  have "\<forall>i<numComps. best_values model (gprefix i @ ''center'') = Some (centerListLowZone ! i)
       \<and> best_values model (gprefix i @ ''sigma'') = Some (sigmaListLowZone ! i)"
    using seed_fitter_best_values [OF lin] by blast
  then have "best_center_sigma model [0, Suc 0, 2] = Inr (centerListLowZone, sigmaListLowZone)"
    by (simp add: numComps_def all_less_3 centerListLowZone_def sigmaListLowZone_def)
  moreover have "[0..<numComps] = [0, Suc 0, 2]"
    by (simp add: numComps_def upt_rec)
  ultimately have read: "best_center_sigma model [0..<numComps]
      = Inr (centerListLowZone, sigmaListLowZone)"
    by simp
  have "main_loop_body seed_fitter (map_of emProfiles_initial) ''H-Alpha'' wave1 flux1 flux1Error
       = Inr (emProfiles_after_H_Alpha, Some (model, comps))"
    unfolding main_loop_body_def info
    using lin read by (simp add: emProfiles_after_H_Alpha_def)
  then show ?thesis by blast
qed

lemma low_zone_dependent:
  assumes line: "emProfiles emName = Some emInfo" "em_zone emInfo = ''low''"
      "emName \<noteq> ''H-Alpha''"
    and ref: "emProfiles ''H-Alpha'' = Some refInfo" "centerList refInfo = Some cs"
    and src: "emProfiles (sigma_source ''low'' emName) = Some srcInfo"
      "sigmaList srcInfo = Some sg"
  shows "main_loop_body fit emProfiles emName wave1 flux1 flux1Error =
     (case lin_and_multi_gaussian fit
             (FittingProfile_init (velocity (restWavelength emInfo) wave1) flux1
                (restWavelength emInfo) emName ''low'' flux1Error)
             numComps cs sg (ampList emInfo) linSlopeLowZone linIntLowZone of
        Inl e \<Rightarrow> Inl e
      | Inr (fp, model, comps) \<Rightarrow>
          if center_sigma_fixed ''low'' emName
          then Inr (emProfiles(emName \<mapsto> emInfo\<lparr>centerList := Some cs, sigmaList := Some sg\<rparr>),
                    Some (model, comps))
          else (case best_sigma model [0..<numComps] of
                  Inl e \<Rightarrow> Inl e
                | Inr sl \<Rightarrow>
                    Inr (emProfiles(emName \<mapsto> emInfo\<lparr>centerList := Some cs, sigmaList := Some sl\<rparr>),
                         Some (model, comps))))"
proof -
  have c: "lookup_key emProfiles ''H-Alpha'' centerList = Inr cs"
    using ref by (rule lookup_key_Some)
  have s: "lookup_key emProfiles (sigma_source ''low'' emName) sigmaList = Inr sg"
    using src by (rule lookup_key_Some)
  have up: "lookup_key (emProfiles(emName \<mapsto> x)) ''H-Alpha'' key = lookup_key emProfiles ''H-Alpha'' key"
    for x and key :: "em_info \<Rightarrow> npfloat list option"
    using line(3) by (simp add: lookup_key_upd_other)
  consider (free) "emName \<in> set [''NII-6584A'', ''SII-6717A'', ''OII-3729A'']"
    | (nii) "emName = ''NII-6548A''" | (sii) "emName = ''SII-6731A''"
    | (oii) "emName = ''OII-3726A''"
    | (other) "emName \<notin> set [''NII-6584A'', ''SII-6717A'', ''OII-3729A'']"
        "emName \<noteq> ''NII-6548A''" "emName \<noteq> ''SII-6731A''" "emName \<noteq> ''OII-3726A''"
    by blast
  then show ?thesis
  proof cases
    case free
    then have src_eq: "sigma_source ''low'' emName = ''H-Alpha''"
      by (auto simp add: sigma_source_def reference_line_def)
    from free have nf: "\<not> center_sigma_fixed ''low'' emName"
      by (auto simp add: center_sigma_fixed_def)
    show ?thesis
      unfolding main_loop_body_def
      using free line c s [unfolded src_eq] nf
      by (simp add: up Let_def split: sum.splits prod.splits)
  next
    case nii
    then have src_eq: "sigma_source ''low'' emName = ''NII-6584A''"
      by (simp add: sigma_source_def)
    from nii have fx: "center_sigma_fixed ''low'' emName"
      by (simp add: center_sigma_fixed_def)
    show ?thesis
      unfolding main_loop_body_def
      using nii line c s [unfolded src_eq] fx
      by (simp add: up Let_def lookup_key_upd_other split: sum.splits prod.splits)
  next
    case sii
    then have src_eq: "sigma_source ''low'' emName = ''SII-6717A''"
      by (simp add: sigma_source_def)
    from sii have fx: "center_sigma_fixed ''low'' emName"
      by (simp add: center_sigma_fixed_def)
    show ?thesis
      unfolding main_loop_body_def
      using sii line c s [unfolded src_eq] fx
      by (simp add: up Let_def lookup_key_upd_other split: sum.splits prod.splits)
  next
    case oii
    then have src_eq: "sigma_source ''low'' emName = ''OII-3729A''"
      by (simp add: sigma_source_def)
    from oii have fx: "center_sigma_fixed ''low'' emName"
      by (simp add: center_sigma_fixed_def)
    show ?thesis
      unfolding main_loop_body_def
      using oii line c s [unfolded src_eq] fx
      by (simp add: up Let_def lookup_key_upd_other split: sum.splits prod.splits)
  next
    case other
    then have src_eq: "sigma_source ''low'' emName = ''H-Alpha''"
      by (simp add: sigma_source_def reference_line_def)
    from other line(3) have fx: "center_sigma_fixed ''low'' emName"
      by (simp add: center_sigma_fixed_def)
    show ?thesis
      unfolding main_loop_body_def
      using other line c s [unfolded src_eq] fx
      by (simp add: up Let_def split: sum.splits prod.splits)
  qed
qed

lemma high_zone_dependent:
  assumes line: "emProfiles emName = Some emInfo" "em_zone emInfo = ''high''"
      "emName \<noteq> ''OIII-5007A''"
    and ref: "emProfiles ''OIII-5007A'' = Some refInfo" "centerList refInfo = Some cs"
    and src: "emProfiles ''OIII-5007A'' = Some srcInfo" "sigmaList srcInfo = Some sg"
  shows "main_loop_body fit emProfiles emName wave1 flux1 flux1Error =
     (case lin_and_multi_gaussian fit
             (FittingProfile_init (velocity (restWavelength emInfo) wave1) flux1
                (restWavelength emInfo) emName ''high'' flux1Error)
             numComps cs sg (ampList emInfo) linSlopeHighZone linIntHighZone of
        Inl e \<Rightarrow> Inl e
      | Inr (fp, model, comps) \<Rightarrow>
          Inr (emProfiles(emName \<mapsto> emInfo\<lparr>centerList := Some cs, sigmaList := Some sg\<rparr>),
               Some (model, comps)))"
proof -
  have c: "lookup_key emProfiles ''OIII-5007A'' centerList = Inr cs"
    using ref by (rule lookup_key_Some)
  have s: "lookup_key emProfiles ''OIII-5007A'' sigmaList = Inr sg"
    using src by (rule lookup_key_Some)
  have up: "lookup_key (emProfiles(emName \<mapsto> x)) ''OIII-5007A'' key
      = lookup_key emProfiles ''OIII-5007A'' key"
    for x and key :: "em_info \<Rightarrow> npfloat list option"
    using line(3) by (simp add: lookup_key_upd_other)
  show ?thesis
    unfolding main_loop_body_def
    using line c s
    by (simp add: up Let_def split: sum.splits prod.splits)
qed

lemma dependent_turn:
  assumes z: "z = ''low'' \<or> z = ''high''"
    and line: "emProfiles emName = Some emInfo" "em_zone emInfo = z"
      "emName \<noteq> reference_line z"
    and ref: "emProfiles (reference_line z) = Some refInfo" "centerList refInfo = Some cs"
    and src: "emProfiles (sigma_source z emName) = Some srcInfo" "sigmaList srcInfo = Some sg"
  shows "main_loop_body fit emProfiles emName wave1 flux1 flux1Error =
     (case lin_and_multi_gaussian fit
             (FittingProfile_init (velocity (restWavelength emInfo) wave1) flux1
                (restWavelength emInfo) emName z flux1Error)
             numComps cs sg (ampList emInfo)
             (if z = ''low'' then linSlopeLowZone else linSlopeHighZone)
             (if z = ''low'' then linIntLowZone else linIntHighZone) of
        Inl e \<Rightarrow> Inl e
      | Inr (fp, model, comps) \<Rightarrow>
          if center_sigma_fixed z emName
          then Inr (emProfiles(emName \<mapsto> emInfo\<lparr>centerList := Some cs, sigmaList := Some sg\<rparr>),
                    Some (model, comps))
          else (case best_sigma model [0..<numComps] of
                  Inl e \<Rightarrow> Inl e
                | Inr sl \<Rightarrow>
                    Inr (emProfiles(emName \<mapsto> emInfo\<lparr>centerList := Some cs, sigmaList := Some sl\<rparr>),
                         Some (model, comps))))
   \<and> (center_sigma_fixed z emName \<longrightarrow> keeps_fixed fit \<longrightarrow>
        (\<forall>emProfiles' model comps.
           main_loop_body fit emProfiles emName wave1 flux1 flux1Error
             = Inr (emProfiles', Some (model, comps)) \<longrightarrow>
           (\<forall>i<numComps. best_values model (gprefix i @ ''center'') = Some (cs ! i)
                         \<and> best_values model (gprefix i @ ''sigma'') = Some (sg ! i))))"
proof -
  let ?fp = "FittingProfile_init (velocity (restWavelength emInfo) wave1) flux1
                (restWavelength emInfo) emName z flux1Error"
  let ?lin = "lin_and_multi_gaussian fit ?fp numComps cs sg (ampList emInfo)
             (if z = ''low'' then linSlopeLowZone else linSlopeHighZone)
             (if z = ''low'' then linIntLowZone else linIntHighZone)"
  have eq: "main_loop_body fit emProfiles emName wave1 flux1 flux1Error =
     (case ?lin of
        Inl e \<Rightarrow> Inl e
      | Inr (fp, model, comps) \<Rightarrow>
          if center_sigma_fixed z emName
          then Inr (emProfiles(emName \<mapsto> emInfo\<lparr>centerList := Some cs, sigmaList := Some sg\<rparr>),
                    Some (model, comps))
          else (case best_sigma model [0..<numComps] of
                  Inl e \<Rightarrow> Inl e
                | Inr sl \<Rightarrow>
                    Inr (emProfiles(emName \<mapsto> emInfo\<lparr>centerList := Some cs, sigmaList := Some sl\<rparr>),
                         Some (model, comps))))"
    using z
  proof
    assume low: "z = ''low''"
    show ?thesis
      using low_zone_dependent [of emProfiles emName emInfo refInfo cs srcInfo sg fit wave1
          flux1 flux1Error] line ref src
      unfolding low by (simp add: reference_line_def)
  next
    assume high: "z = ''high''"
    then have fx: "center_sigma_fixed z emName"
      using line(3) by (simp add: center_sigma_fixed_def reference_line_def)
    from high have so: "sigma_source z emName = ''OIII-5007A''"
      by (simp add: sigma_source_def reference_line_def)
    show ?thesis
      using high_zone_dependent [of emProfiles emName emInfo refInfo cs srcInfo sg fit wave1
          flux1 flux1Error] line ref src fx
      unfolding so unfolding high
      by (simp add: reference_line_def split: sum.splits prod.splits)
  qed
  have vals: "best_values model (gprefix i @ ''center'') = Some (cs ! i)
            \<and> best_values model (gprefix i @ ''sigma'') = Some (sg ! i)"
    if fx: "center_sigma_fixed z emName" and keeps: "keeps_fixed fit"
      and run: "main_loop_body fit emProfiles emName wave1 flux1 flux1Error
             = Inr (emProfiles', Some (model, comps))"
      and i: "i < numComps"
    for emProfiles' model comps i
  proof -
    from run eq fx obtain self' where lin: "?lin = Inr (self', model, comps)"
      by (cases ?lin) auto
    have "center_sigma_fixed (zone ?fp) (lineName ?fp)"
      using fx by simp
    from fixed_parameters_reproduced [OF lin this keeps i] show ?thesis .
  qed
  from eq vals show ?thesis by blast
qed

lemma gaussian_component_flags:
  assumes "gaussian_component self pars prefix c s a cMin cMax sMin sMax aMin aMax = Inr (pars', g)"
  shows "\<exists>vc vs. pars' = pars(prefix @ ''center'' \<mapsto>
                 \<lparr>par_value = c, par_min = default_arg MInf cMin,
                  par_max = default_arg PInf cMax, par_vary = vc\<rparr>,
               prefix @ ''sigma'' \<mapsto>
                 \<lparr>par_value = s, par_min = default_arg MInf sMin,
                  par_max = default_arg PInf sMax, par_vary = vs\<rparr>,
               prefix @ ''amplitude'' \<mapsto>
                 \<lparr>par_value = a, par_min = default_arg MInf aMin,
                  par_max = default_arg PInf aMax, par_vary = True\<rparr>)
           \<and> (lineName self = reference_line (zone self) \<longrightarrow> vc \<and> vs)
           \<and> (lineName self \<noteq> reference_line (zone self) \<longrightarrow> \<not> vc)
           \<and> (center_sigma_fixed (zone self) (lineName self) \<longleftrightarrow> \<not> vc \<and> \<not> vs)"
proof -
  let ?flags = "(if zone self = ''low'' then
              (if lineName self = ''H-Alpha'' then Some (True, True, True)
               else if lineName self \<in> set [''NII-6584A'', ''SII-6717A'', ''OII-3729A'']
                 then Some (False, True, True)
               else Some (False, False, True))
            else if zone self = ''high'' then
              (if lineName self = ''OIII-5007A'' then Some (True, True, True)
               else Some (False, False, True))
            else None)"
  from assms obtain vc vs va where fl: "?flags = Some (vc, vs, va)"
    unfolding gaussian_component_def by (cases ?flags) auto
  then have va: "va = True"
    by (simp split: if_splits)
  from fl have a: "lineName self = reference_line (zone self) \<longrightarrow> vc \<and> vs"
    by (simp add: reference_line_def split: if_splits)
  from fl have b: "lineName self \<noteq> reference_line (zone self) \<longrightarrow> \<not> vc"
    by (simp add: reference_line_def split: if_splits)
  from fl have c: "center_sigma_fixed (zone self) (lineName self) \<longleftrightarrow> \<not> vc \<and> \<not> vs"
    by (auto simp add: center_sigma_fixed_def split: if_splits)
  from assms have "pars' = pars(prefix @ ''center'' \<mapsto>
                 \<lparr>par_value = c, par_min = default_arg MInf cMin,
                  par_max = default_arg PInf cMax, par_vary = vc\<rparr>,
               prefix @ ''sigma'' \<mapsto>
                 \<lparr>par_value = s, par_min = default_arg MInf sMin,
                  par_max = default_arg PInf sMax, par_vary = vs\<rparr>,
               prefix @ ''amplitude'' \<mapsto>
                 \<lparr>par_value = a, par_min = default_arg MInf aMin,
                  par_max = default_arg PInf aMax, par_vary = True\<rparr>)"
    unfolding gaussian_component_def fl va by (auto simp add: Let_def)
  with a b c show ?thesis by blast
qed

lemma gaussian_components_flags:
  assumes "gaussian_components self pars cL sL aL idxs = Inr (pars', gs)"
    and "distinct idxs" and "i \<in> set idxs"
  shows "\<exists>vc vs.
      pars' (gprefix i @ ''center'')
        = Some \<lparr>par_value = cL ! i, par_min = MInf, par_max = PInf, par_vary = vc\<rparr>
    \<and> pars' (gprefix i @ ''sigma'')
        = Some \<lparr>par_value = sL ! i, par_min = MInf, par_max = PInf, par_vary = vs\<rparr>
    \<and> (lineName self = reference_line (zone self) \<longrightarrow> vc \<and> vs)
    \<and> (lineName self \<noteq> reference_line (zone self) \<longrightarrow> \<not> vc)
    \<and> (center_sigma_fixed (zone self) (lineName self) \<longleftrightarrow> \<not> vc \<and> \<not> vs)"
  using assms
proof (induction idxs arbitrary: pars gs)
  case Nil
  then show ?case by simp
next
  case (Cons j rest)
  from Cons.prems(1) obtain p1 g1 g2 where
    one: "gaussian_component self pars (gprefix j) (cL ! j) (sL ! j) (aL ! j)
            None None None None None None = Inr (p1, g1)"
    and more: "gaussian_components self p1 cL sL aL rest = Inr (pars', g2)"
    by (rule gaussian_components_Cons_Inr)
  show ?case
  proof (cases "i = j")
    case True
    with Cons.prems(2) have notin: "i \<notin> set rest" by simp
    have keep: "pars' (gprefix i @ f) = p1 (gprefix i @ f)" for f
      using gaussian_components_other [OF more notin] .
    from gaussian_component_flags [OF one] obtain vc vs where
      p1: "p1 = pars(gprefix j @ ''center'' \<mapsto>
                 \<lparr>par_value = cL ! j, par_min = default_arg MInf None,
                  par_max = default_arg PInf None, par_vary = vc\<rparr>,
               gprefix j @ ''sigma'' \<mapsto>
                 \<lparr>par_value = sL ! j, par_min = default_arg MInf None,
                  par_max = default_arg PInf None, par_vary = vs\<rparr>,
               gprefix j @ ''amplitude'' \<mapsto>
                 \<lparr>par_value = aL ! j, par_min = default_arg MInf None,
                  par_max = default_arg PInf None, par_vary = True\<rparr>)"
      and fx: "(lineName self = reference_line (zone self) \<longrightarrow> vc \<and> vs)
           \<and> (lineName self \<noteq> reference_line (zone self) \<longrightarrow> \<not> vc)
           \<and> (center_sigma_fixed (zone self) (lineName self) \<longleftrightarrow> \<not> vc \<and> \<not> vs)"
      by blast
    have "pars' (gprefix i @ ''center'')
        = Some \<lparr>par_value = cL ! i, par_min = MInf, par_max = PInf, par_vary = vc\<rparr>"
      unfolding keep p1 using True by simp
    moreover have "pars' (gprefix i @ ''sigma'')
        = Some \<lparr>par_value = sL ! i, par_min = MInf, par_max = PInf, par_vary = vs\<rparr>"
      unfolding keep p1 using True by simp
    ultimately show ?thesis using fx by blast
  next
    case False
    with Cons.prems have "distinct rest" "i \<in> set rest" by simp_all
    from Cons.IH [OF more this] show ?thesis .
  qed
qed

lemma best_center_sigma_Inr:
  assumes "best_center_sigma model idxs = Inr (cl, sl)"
  shows "length cl = length idxs \<and> length sl = length idxs
       \<and> (\<forall>k<length idxs.
             best_values model (gprefix (idxs ! k) @ ''center'') = Some (cl ! k)
           \<and> best_values model (gprefix (idxs ! k) @ ''sigma'') = Some (sl ! k))"
  using assms
proof (induction idxs arbitrary: cl sl)
  case Nil
  then show ?case by simp
next
  case (Cons j rest)
  from Cons.prems obtain c s cl' sl' where
    c: "best_values model (gprefix j @ ''center'') = Some c"
    and s: "best_values model (gprefix j @ ''sigma'') = Some s"
    and more: "best_center_sigma model rest = Inr (cl', sl')"
    and cl: "cl = c # cl'" and sl: "sl = s # sl'"
    by (auto split: option.splits sum.splits)
  from Cons.IH [OF more] c s cl sl show ?case
    by (auto simp add: nth_Cons split: nat.splits)
qed

lemma best_sigma_Inr:
  assumes "best_sigma model idxs = Inr sl"
  shows "length sl = length idxs
       \<and> (\<forall>k<length idxs. best_values model (gprefix (idxs ! k) @ ''sigma'') = Some (sl ! k))"
  using assms
proof (induction idxs arbitrary: sl)
  case Nil
  then show ?case by simp
next
  case (Cons j rest)
  from Cons.prems obtain s sl' where
    s: "best_values model (gprefix j @ ''sigma'') = Some s"
    and more: "best_sigma model rest = Inr sl'"
    and sl: "sl = s # sl'"
    by (auto split: option.splits sum.splits)
  from Cons.IH [OF more] s sl show ?case
    by (auto simp add: nth_Cons split: nat.splits)
qed

lemma reference_turn:
  assumes z: "z = ''low'' \<or> z = ''high''"
    and ref: "emProfiles (reference_line z) = Some refInfo" "em_zone refInfo = z"
    and run: "main_loop_body fit emProfiles (reference_line z) wave1 flux1 flux1Error
                = Inr (emProfiles', r)"
  shows "\<exists>model comps cl sl.
      r = Some (model, comps)
    \<and> emProfiles' = emProfiles(reference_line z \<mapsto>
                       refInfo\<lparr>centerList := Some cl, sigmaList := Some sl\<rparr>)
    \<and> length cl = numComps \<and> length sl = numComps
    \<and> (\<forall>i<numComps. best_values model (gprefix i @ ''center'') = Some (cl ! i)
                    \<and> best_values model (gprefix i @ ''sigma'') = Some (sl ! i))"
proof -
  from z ref run obtain fp model comps cl sl where
    r: "r = Some (model, comps)"
    and st: "emProfiles' = emProfiles(reference_line z \<mapsto>
                       refInfo\<lparr>centerList := Some cl, sigmaList := Some sl\<rparr>)"
    and read: "best_center_sigma model [0..<numComps] = Inr (cl, sl)"
    unfolding main_loop_body_def
    by (auto simp add: reference_line_def Let_def split: sum.splits prod.splits)
  from best_center_sigma_Inr [OF read] r st show ?thesis
    by auto
qed

lemma keeps_fixed_offset_fitter: "keeps_fixed offset_fitter"
  by (auto simp add: keeps_fixed_def offset_fitter_def)

lemma offset_fitter_run:
  assumes "zone self = ''low'' \<or> zone self = ''high''"
    and "n \<le> length cL" "n \<le> length sL" "n \<le> length aL"
  shows "\<exists>self' out comps.
           lin_and_multi_gaussian offset_fitter self n cL sL aL lS lI = Inr (self', out, comps)
         \<and> (\<forall>i<n. best_values out (gprefix i @ ''center'')
                     = Some (if lineName self = reference_line (zone self)
                             then fadd (cL ! i) (Fin 1) else cL ! i)
                 \<and> best_values out (gprefix i @ ''sigma'')
                     = Some (if center_sigma_fixed (zone self) (lineName self)
                             then sL ! i else fadd (sL ! i) (Fin 1)))"
proof -
  have "\<forall>i\<in>set [0..<n]. i < length cL \<and> i < length sL \<and> i < length aL"
    using assms(2-4) by auto
  from gaussian_components_defined [OF assms(1) this] obtain pars where
    built: "gaussian_components self (linear_params lS lI) cL sL aL [0..<n]
              = Inr (pars, map gprefix [0..<n])"
    by blast
  define out where "out = \<lparr>best_values = (\<lambda>k. map_option
             (\<lambda>p. if par_vary p then fadd (par_value p) (Fin 1) else par_value p) (pars k)),
      best_fit = flux self, eval_components = Map.empty\<rparr>"
  have "\<exists>v. best_values out (gprefix i @ ''amplitude'') = Some v" if "i \<in> set [0..<n]" for i
    using gaussian_components_lookup [OF built _ that] by (auto simp add: out_def)
  then have "\<exists>v. amplitude_loop out (Fin 0) [0..<n] = Inr v"
    by (intro amplitude_loop_defined) blast
  then obtain v where "amplitude_loop out (Fin 0) [0..<n] = Inr v" ..
  with built have run: "lin_and_multi_gaussian offset_fitter self n cL sL aL lS lI
      = Inr (self\<lparr>linGaussParams := pars\<rparr>, out, eval_components out)"
    by (simp add: lin_and_multi_gaussian_def offset_fitter_def out_def get_amplitude_def Let_def)
  have vals: "best_values out (gprefix i @ ''center'')
                     = Some (if lineName self = reference_line (zone self)
                             then fadd (cL ! i) (Fin 1) else cL ! i)
                 \<and> best_values out (gprefix i @ ''sigma'')
                     = Some (if center_sigma_fixed (zone self) (lineName self)
                             then sL ! i else fadd (sL ! i) (Fin 1))" if "i < n" for i
  proof -
    from that have "i \<in> set [0..<n]" by simp
    from gaussian_components_flags [OF built _ this] obtain vc vs where
      c: "pars (gprefix i @ ''center'')
        = Some \<lparr>par_value = cL ! i, par_min = MInf, par_max = PInf, par_vary = vc\<rparr>"
      and s: "pars (gprefix i @ ''sigma'')
        = Some \<lparr>par_value = sL ! i, par_min = MInf, par_max = PInf, par_vary = vs\<rparr>"
      and r1: "lineName self = reference_line (zone self) \<longrightarrow> vc \<and> vs"
      and r2: "lineName self \<noteq> reference_line (zone self) \<longrightarrow> \<not> vc"
      and r3: "center_sigma_fixed (zone self) (lineName self) \<longleftrightarrow> \<not> vc \<and> \<not> vs"
      by auto
    from r1 r2 have vc: "vc \<longleftrightarrow> lineName self = reference_line (zone self)" by blast
    from r1 r2 r3 have vs: "vs \<longleftrightarrow> \<not> center_sigma_fixed (zone self) (lineName self)" by blast
    show ?thesis
      by (simp add: out_def c s vc vs)
  qed
  from run vals show ?thesis by blast
qed

lemma best_center_sigma_defined:
  assumes "\<forall>i\<in>set idxs. \<exists>c s. best_values model (gprefix i @ ''center'') = Some c
                              \<and> best_values model (gprefix i @ ''sigma'') = Some s"
  shows "\<exists>cl sl. best_center_sigma model idxs = Inr (cl, sl)"
  using assms by (induction idxs) auto

lemma best_sigma_defined:
  assumes "\<forall>i\<in>set idxs. \<exists>s. best_values model (gprefix i @ ''sigma'') = Some s"
  shows "\<exists>sl. best_sigma model idxs = Inr sl"
  using assms by (induction idxs) auto

lemma offset_reference_turn:
  assumes z: "z = ''low'' \<or> z = ''high''"
    and ref: "emProfiles (reference_line z) = Some refInfo" "em_zone refInfo = z"
    and len: "numComps \<le> length (ampList refInfo)"
  shows "\<exists>emProfiles' model comps.
      main_loop_body offset_fitter emProfiles (reference_line z) wave1 flux1 flux1Error
        = Inr (emProfiles', Some (model, comps))
    \<and> (\<forall>i<numComps. best_values model (gprefix i @ ''center'')
          = Some (fadd ((if z = ''low'' then centerListLowZone else centerListHighZone) ! i) (Fin 1))
        \<and> best_values model (gprefix i @ ''sigma'')
          = Some (fadd ((if z = ''low'' then sigmaListLowZone else sigmaListHighZone) ! i) (Fin 1)))"
proof -
  let ?prof = "FittingProfile_init (velocity (restWavelength refInfo) wave1) flux1
      (restWavelength refInfo) (reference_line z) z flux1Error"
  let ?cL = "if z = ''low'' then centerListLowZone else centerListHighZone"
  let ?sL = "if z = ''low'' then sigmaListLowZone else sigmaListHighZone"
  let ?lS = "if z = ''low'' then linSlopeLowZone else linSlopeHighZone"
  let ?lI = "if z = ''low'' then linIntLowZone else linIntHighZone"
  have nf: "\<not> center_sigma_fixed z (reference_line z)"
    using z by (auto simp add: center_sigma_fixed_def reference_line_def)
  have "zone ?prof = ''low'' \<or> zone ?prof = ''high''" using z by simp
  moreover have "numComps \<le> length ?cL" "numComps \<le> length ?sL"
    by (simp_all add: numComps_def centerListLowZone_def centerListHighZone_def
        sigmaListLowZone_def sigmaListHighZone_def)
  ultimately obtain self' model comps where
    lin: "lin_and_multi_gaussian offset_fitter ?prof numComps ?cL ?sL (ampList refInfo) ?lS ?lI
            = Inr (self', model, comps)"
    and vals: "\<forall>i<numComps. best_values model (gprefix i @ ''center'') = Some (fadd (?cL ! i) (Fin 1))
        \<and> best_values model (gprefix i @ ''sigma'') = Some (fadd (?sL ! i) (Fin 1))"
    using offset_fitter_run [of ?prof numComps ?cL ?sL "ampList refInfo" ?lS ?lI] len nf
    by auto
  from vals have "\<forall>i\<in>set [0..<numComps]. \<exists>c s. best_values model (gprefix i @ ''center'') = Some c
                              \<and> best_values model (gprefix i @ ''sigma'') = Some s"
    by simp
  from best_center_sigma_defined [OF this] obtain cl sl where
    read: "best_center_sigma model [0..<numComps] = Inr (cl, sl)"
    by blast
  from z have "main_loop_body offset_fitter emProfiles (reference_line z) wave1 flux1 flux1Error
        = Inr (emProfiles(reference_line z \<mapsto>
                 refInfo\<lparr>centerList := Some cl, sigmaList := Some sl\<rparr>), Some (model, comps))"
  proof
    assume low: "z = ''low''"
    with ref lin read show ?thesis
      unfolding main_loop_body_def by (simp add: reference_line_def)
  next
    assume high: "z = ''high''"
    with ref lin read show ?thesis
      unfolding main_loop_body_def by (simp add: reference_line_def)
  qed
  with vals show ?thesis by blast
qed

lemma offset_dependent_turn:
  assumes z: "z = ''low'' \<or> z = ''high''"
    and line: "emProfiles emName = Some emInfo" "em_zone emInfo = z"
      "emName \<noteq> reference_line z"
    and ref: "emProfiles (reference_line z) = Some refInfo" "centerList refInfo = Some cs"
    and src: "emProfiles (sigma_source z emName) = Some srcInfo" "sigmaList srcInfo = Some sg"
    and len: "numComps \<le> length cs" "numComps \<le> length sg"
      "numComps \<le> length (ampList emInfo)"
  shows "\<exists>emProfiles' model comps.
      main_loop_body offset_fitter emProfiles emName wave1 flux1 flux1Error
        = Inr (emProfiles', Some (model, comps))
    \<and> (\<forall>i<numComps. best_values model (gprefix i @ ''sigma'')
          = Some (if center_sigma_fixed z emName then sg ! i else fadd (sg ! i) (Fin 1)))"
proof -
  let ?prof = "FittingProfile_init (velocity (restWavelength emInfo) wave1) flux1
                  (restWavelength emInfo) emName z flux1Error"
  let ?lS = "if z = ''low'' then linSlopeLowZone else linSlopeHighZone"
  let ?lI = "if z = ''low'' then linIntLowZone else linIntHighZone"
  have "zone ?prof = ''low'' \<or> zone ?prof = ''high''" using z by simp
  from offset_fitter_run [OF this len, of ?lS ?lI] obtain self' model comps where
    lin: "lin_and_multi_gaussian offset_fitter ?prof numComps cs sg (ampList emInfo) ?lS ?lI
            = Inr (self', model, comps)"
    and vals: "\<forall>i<numComps. best_values model (gprefix i @ ''sigma'')
          = Some (if center_sigma_fixed z emName then sg ! i else fadd (sg ! i) (Fin 1))"
    by auto
  from vals have "\<forall>i\<in>set [0..<numComps]. \<exists>s. best_values model (gprefix i @ ''sigma'') = Some s"
    by simp
  from best_sigma_defined [OF this] obtain sl where
    read: "best_sigma model [0..<numComps] = Inr sl"
    by blast
  note turn = dependent_turn [OF z line ref src, of offset_fitter wave1 flux1 flux1Error]
  from turn lin read have "\<exists>emProfiles'.
      main_loop_body offset_fitter emProfiles emName wave1 flux1 flux1Error
        = Inr (emProfiles', Some (model, comps))"
    by (cases "center_sigma_fixed z emName") simp_all
  with vals show ?thesis by blast
qed

lemma initial_lookups:
  "map_of emProfiles_initial ''H-Alpha'' = Some
       \<lparr>Colour = ''b'', Order = 21, Filter = ''red'', minI = 1180, maxI = 1650,
        restWavelength = Fin 6562.82, ampList = [Fin 17.1348544, Fin 15.3253166, Fin 25.991642],
        em_zone = ''low'', sigmaT2 = Fin 164.96, centerList = None, sigmaList = None\<rparr>"
  "map_of emProfiles_initial ''NII-6584A'' = Some
       \<lparr>Colour = ''y'', Order = 21, Filter = ''red'', minI = 1750, maxI = 2050,
        restWavelength = Fin 6583.41, ampList = [Fin 1.9724283, Fin 2.2865144, Fin 1.5250645],
        em_zone = ''low'', sigmaT2 = Fin 11.87, centerList = None, sigmaList = None\<rparr>"
  "map_of emProfiles_initial ''NII-6548A'' = Some
       \<lparr>Colour = ''m'', Order = 21, Filter = ''red'', minI = 1000, maxI = 1300,
        restWavelength = Fin 6548.03, ampList = [Fin 0.6269642, Fin 0.7364259, Fin 0.5323627],
        em_zone = ''low'', sigmaT2 = Fin 11.87, centerList = None, sigmaList = None\<rparr>"
  by (simp_all add: emProfiles_initial_def)

text \<open>
  Claim C3. After the turn of the reference line of a zone (\<open>H-Alpha\<close> for \<open>low\<close>,
  \<open>OIII-5007A\<close> for \<open>high\<close>) the lists stored under it are the best values \<open>cs\<close>, \<open>ss\<close>
  of its fit. The turn of any other line of the zone then runs the fit with the center list
  \<open>cs\<close> and with the sigma list \<open>sg\<close> of its sigma source: the sibling for \<open>NII-6548A\<close>,
  \<open>SII-6731A\<close> and \<open>OII-3726A\<close>, the reference line otherwise (then \<open>sg = ss\<close>). It touches
  no other entry of the dictionary. When the sigma of the line is free, the list it stores
  is that of its own fitted sigmas, which is what a sibling inherits. For a line whose
  center and sigma are fixed, a fitter that holds fixed parameters returns exactly the
  inherited centers and sigmas as best values.
\<close>

theorem dependent_line_inherits:
  assumes z: "z = ''low'' \<or> z = ''high''"
    and ref0: "emProfiles0 (reference_line z) = Some refInfo0" "em_zone refInfo0 = z"
    and refturn: "main_loop_body fit emProfiles0 (reference_line z) refWave refFlux refFluxError
                    = Inr (emProfilesR, Some (refModel, refComps))"
    and kept: "emProfiles (reference_line z) = emProfilesR (reference_line z)"
    and line: "emProfiles emName = Some emInfo" "em_zone emInfo = z"
      "emName \<noteq> reference_line z"
    and src: "emProfiles (sigma_source z emName) = Some srcInfo" "sigmaList srcInfo = Some sg"
  shows "\<exists>cs ss.
      length cs = numComps \<and> length ss = numComps
    \<and> (\<forall>i<numComps. best_values refModel (gprefix i @ ''center'') = Some (cs ! i)
                    \<and> best_values refModel (gprefix i @ ''sigma'') = Some (ss ! i))
    \<and> (sigma_source z emName = reference_line z \<longrightarrow> sg = ss)
    \<and> main_loop_body fit emProfiles emName wave1 flux1 flux1Error =
       (case lin_and_multi_gaussian fit
               (FittingProfile_init (velocity (restWavelength emInfo) wave1) flux1
                  (restWavelength emInfo) emName z flux1Error)
               numComps cs sg (ampList emInfo)
               (if z = ''low'' then linSlopeLowZone else linSlopeHighZone)
               (if z = ''low'' then linIntLowZone else linIntHighZone) of
          Inl e \<Rightarrow> Inl e
        | Inr (fp, model, comps) \<Rightarrow>
            if center_sigma_fixed z emName
            then Inr (emProfiles(emName \<mapsto> emInfo\<lparr>centerList := Some cs, sigmaList := Some sg\<rparr>),
                      Some (model, comps))
            else (case best_sigma model [0..<numComps] of
                    Inl e \<Rightarrow> Inl e
                  | Inr sl \<Rightarrow>
                      Inr (emProfiles(emName \<mapsto> emInfo\<lparr>centerList := Some cs, sigmaList := Some sl\<rparr>),
                           Some (model, comps))))
    \<and> (\<forall>emProfiles' model comps.
          main_loop_body fit emProfiles emName wave1 flux1 flux1Error
            = Inr (emProfiles', Some (model, comps)) \<longrightarrow>
          (\<forall>k. k \<noteq> emName \<longrightarrow> emProfiles' k = emProfiles k)
        \<and> (center_sigma_fixed z emName \<longrightarrow> keeps_fixed fit \<longrightarrow>
             (\<forall>i<numComps. best_values model (gprefix i @ ''center'') = Some (cs ! i)
                           \<and> best_values model (gprefix i @ ''sigma'') = Some (sg ! i)))
        \<and> (\<not> center_sigma_fixed z emName \<longrightarrow>
             (\<exists>info sl. emProfiles' emName = Some info \<and> sigmaList info = Some sl
                \<and> length sl = numComps
                \<and> (\<forall>i<numComps. best_values model (gprefix i @ ''sigma'') = Some (sl ! i)))))"
proof -
  from reference_turn [OF z ref0 refturn] obtain cs ss where
    stR: "emProfilesR = emProfiles0(reference_line z \<mapsto>
                       refInfo0\<lparr>centerList := Some cs, sigmaList := Some ss\<rparr>)"
    and len: "length cs = numComps" "length ss = numComps"
    and fitted: "\<forall>i<numComps. best_values refModel (gprefix i @ ''center'') = Some (cs ! i)
                    \<and> best_values refModel (gprefix i @ ''sigma'') = Some (ss ! i)"
    by auto
  let ?refInfo = "refInfo0\<lparr>centerList := Some cs, sigmaList := Some ss\<rparr>"
  from kept stR have ref: "emProfiles (reference_line z) = Some ?refInfo"
    "centerList ?refInfo = Some cs"
    by simp_all
  have same: "sg = ss" if "sigma_source z emName = reference_line z"
  proof -
    from that src(1) ref(1) have "srcInfo = ?refInfo" by simp
    with src(2) show ?thesis by simp
  qed
  note turn = dependent_turn [OF z line ref src, of fit wave1 flux1 flux1Error]
  let ?run = "main_loop_body fit emProfiles emName wave1 flux1 flux1Error"
  have eq: "?run =
       (case lin_and_multi_gaussian fit
               (FittingProfile_init (velocity (restWavelength emInfo) wave1) flux1
                  (restWavelength emInfo) emName z flux1Error)
               numComps cs sg (ampList emInfo)
               (if z = ''low'' then linSlopeLowZone else linSlopeHighZone)
               (if z = ''low'' then linIntLowZone else linIntHighZone) of
          Inl e \<Rightarrow> Inl e
        | Inr (fp, model, comps) \<Rightarrow>
            if center_sigma_fixed z emName
            then Inr (emProfiles(emName \<mapsto> emInfo\<lparr>centerList := Some cs, sigmaList := Some sg\<rparr>),
                      Some (model, comps))
            else (case best_sigma model [0..<numComps] of
                    Inl e \<Rightarrow> Inl e
                  | Inr sl \<Rightarrow>
                      Inr (emProfiles(emName \<mapsto> emInfo\<lparr>centerList := Some cs, sigmaList := Some sl\<rparr>),
                           Some (model, comps))))"
    using turn by (rule conjunct1)
  have after: "(\<forall>k. k \<noteq> emName \<longrightarrow> emProfiles' k = emProfiles k)
        \<and> (center_sigma_fixed z emName \<longrightarrow> keeps_fixed fit \<longrightarrow>
             (\<forall>i<numComps. best_values model (gprefix i @ ''center'') = Some (cs ! i)
                           \<and> best_values model (gprefix i @ ''sigma'') = Some (sg ! i)))
        \<and> (\<not> center_sigma_fixed z emName \<longrightarrow>
             (\<exists>info sl. emProfiles' emName = Some info \<and> sigmaList info = Some sl
                \<and> length sl = numComps
                \<and> (\<forall>i<numComps. best_values model (gprefix i @ ''sigma'') = Some (sl ! i))))"
    if run: "?run = Inr (emProfiles', Some (model, comps))" for emProfiles' model comps
  proof (intro conjI impI)
    from run eq obtain info where "emProfiles' = emProfiles(emName \<mapsto> info)"
      by (cases "lin_and_multi_gaussian fit
               (FittingProfile_init (velocity (restWavelength emInfo) wave1) flux1
                  (restWavelength emInfo) emName z flux1Error)
               numComps cs sg (ampList emInfo)
               (if z = ''low'' then linSlopeLowZone else linSlopeHighZone)
               (if z = ''low'' then linIntLowZone else linIntHighZone)")
         (auto split: if_splits sum.splits)
    then show "\<forall>k. k \<noteq> emName \<longrightarrow> emProfiles' k = emProfiles k"
      by simp
  next
    assume "center_sigma_fixed z emName" "keeps_fixed fit"
    with turn run
    show "\<forall>i<numComps. best_values model (gprefix i @ ''center'') = Some (cs ! i)
                           \<and> best_values model (gprefix i @ ''sigma'') = Some (sg ! i)"
      by blast
  next
    assume free: "\<not> center_sigma_fixed z emName"
    from run eq free obtain sl where
      read: "best_sigma model [0..<numComps] = Inr sl"
      and st: "emProfiles' = emProfiles(emName \<mapsto>
                 emInfo\<lparr>centerList := Some cs, sigmaList := Some sl\<rparr>)"
      by (auto split: sum.splits prod.splits)
    from best_sigma_Inr [OF read] st
    show "\<exists>info sl. emProfiles' emName = Some info \<and> sigmaList info = Some sl
                \<and> length sl = numComps
                \<and> (\<forall>i<numComps. best_values model (gprefix i @ ''sigma'') = Some (sl ! i))"
      by auto
  qed
  from len fitted same eq after show ?thesis by blast
qed

theorem dependent_line_inherits_witness:
  "\<exists>st1 m1 c1 st2 m2 c2 st3 m3 c3.
      main_loop_body offset_fitter (map_of emProfiles_initial) ''H-Alpha''
          [Fin 6562, Fin 6563] [Fin 1, Fin 2] None = Inr (st1, Some (m1, c1))
    \<and> main_loop_body offset_fitter st1 ''NII-6584A''
          [Fin 6583, Fin 6584] [Fin 1, Fin 2] None = Inr (st2, Some (m2, c2))
    \<and> main_loop_body offset_fitter st2 ''NII-6548A''
          [Fin 6548, Fin 6549] [Fin 1, Fin 2] None = Inr (st3, Some (m3, c3))
    \<and> best_values m1 ''g1_center'' = Some (Fin 6350.20126)
    \<and> best_values m1 ''g1_sigma'' = Some (Fin 20.2852694)
    \<and> best_values m2 ''g1_sigma'' = Some (Fin 21.2852694)
    \<and> best_values m3 ''g1_center'' = Some (Fin 6350.20126)
    \<and> best_values m3 ''g2_center'' = Some (Fin 6329.97820)
    \<and> best_values m3 ''g3_center'' = Some (Fin 6316.53639)
    \<and> best_values m3 ''g1_sigma'' = Some (Fin 21.2852694)
    \<and> best_values m3 ''g2_sigma'' = Some (Fin 66.1684056)
    \<and> best_values m3 ''g3_sigma'' = Some (Fin 24.2647170)"
proof -
  let ?E = "map_of emProfiles_initial"
  let ?infoH = "\<lparr>Colour = ''b'', Order = 21, Filter = ''red'', minI = 1180, maxI = 1650,
        restWavelength = Fin 6562.82, ampList = [Fin 17.1348544, Fin 15.3253166, Fin 25.991642],
        em_zone = ''low'', sigmaT2 = Fin 164.96, centerList = None, sigmaList = None\<rparr>"
  let ?infoN = "\<lparr>Colour = ''y'', Order = 21, Filter = ''red'', minI = 1750, maxI = 2050,
        restWavelength = Fin 6583.41, ampList = [Fin 1.9724283, Fin 2.2865144, Fin 1.5250645],
        em_zone = ''low'', sigmaT2 = Fin 11.87, centerList = None, sigmaList = None\<rparr>"
  let ?infoM = "\<lparr>Colour = ''m'', Order = 21, Filter = ''red'', minI = 1000, maxI = 1300,
        restWavelength = Fin 6548.03, ampList = [Fin 0.6269642, Fin 0.7364259, Fin 0.5323627],
        em_zone = ''low'', sigmaT2 = Fin 11.87, centerList = None, sigmaList = None\<rparr>"
  have z: "''low'' = ''low'' \<or> ''low'' = ''high''" by simp
  have rl: "reference_line ''low'' = ''H-Alpha''" by (simp add: reference_line_def)
  have h0: "?E (reference_line ''low'') = Some ?infoH" "em_zone ?infoH = ''low''"
    by (simp_all add: rl initial_lookups)
  have lenH: "numComps \<le> length (ampList ?infoH)" by (simp add: numComps_def)
  \<comment> \<open>the turn of the reference line\<close>
  from offset_reference_turn [where z = "''low''" and emProfiles = ?E and refInfo = ?infoH
      and ?wave1.0 = "[Fin 6562, Fin 6563]" and ?flux1.0 = "[Fin 1, Fin 2]"
      and flux1Error = None, OF z h0 lenH]
  obtain st1 m1 c1 where
    t1: "main_loop_body offset_fitter ?E (reference_line ''low'')
          [Fin 6562, Fin 6563] [Fin 1, Fin 2] None = Inr (st1, Some (m1, c1))"
    and v1: "\<forall>i<numComps. best_values m1 (gprefix i @ ''center'')
                = Some (fadd (centerListLowZone ! i) (Fin 1))
            \<and> best_values m1 (gprefix i @ ''sigma'')
                = Some (fadd (sigmaListLowZone ! i) (Fin 1))"
    by auto
  from reference_turn [where z = "''low''" and emProfiles = ?E and refInfo = ?infoH, OF z h0 t1]
  obtain cl sl where
    st1: "st1 = ?E(reference_line ''low'' \<mapsto> ?infoH\<lparr>centerList := Some cl, sigmaList := Some sl\<rparr>)"
    and len1: "length cl = numComps" "length sl = numComps"
    and f1: "\<forall>i<numComps. best_values m1 (gprefix i @ ''center'') = Some (cl ! i)
                    \<and> best_values m1 (gprefix i @ ''sigma'') = Some (sl ! i)"
    by auto
  let ?ref = "?infoH\<lparr>centerList := Some cl, sigmaList := Some sl\<rparr>"
  have st1H: "st1 (reference_line ''low'') = Some ?ref" by (simp add: st1)
  have st1N: "st1 ''NII-6584A'' = Some ?infoN" by (simp add: st1 rl initial_lookups)
  have st1M: "st1 ''NII-6548A'' = Some ?infoM" by (simp add: st1 rl initial_lookups)
  note thm1 = dependent_line_inherits [where z = "''low''" and ?emProfiles0.0 = ?E
      and ?refInfo0.0 = ?infoH, OF z h0 t1]
  \<comment> \<open>the turn of the sibling, whose sigma is free\<close>
  have srcN: "sigma_source ''low'' ''NII-6584A'' = reference_line ''low''"
    by (simp add: sigma_source_def)
  have freeN: "\<not> center_sigma_fixed ''low'' ''NII-6584A''"
    by (simp add: center_sigma_fixed_def)
  have lineN: "st1 ''NII-6584A'' = Some ?infoN" "em_zone ?infoN = ''low''"
    "''NII-6584A'' \<noteq> reference_line ''low''"
    by (simp_all add: st1N rl)
  have refN: "st1 (reference_line ''low'') = Some ?ref" "centerList ?ref = Some cl"
    by (simp_all add: st1H)
  have srcN': "st1 (sigma_source ''low'' ''NII-6584A'') = Some ?ref" "sigmaList ?ref = Some sl"
    by (simp_all add: srcN st1H)
  have lenN: "numComps \<le> length cl" "numComps \<le> length sl" "numComps \<le> length (ampList ?infoN)"
    using len1 by (simp_all add: numComps_def)
  from offset_dependent_turn [where z = "''low''" and emProfiles = st1
      and emName = "''NII-6584A''" and emInfo = ?infoN and refInfo = ?ref and cs = cl
      and srcInfo = ?ref and sg = sl and ?wave1.0 = "[Fin 6583, Fin 6584]"
      and ?flux1.0 = "[Fin 1, Fin 2]" and flux1Error = None,
      OF z lineN refN srcN' lenN] freeN
  obtain st2 m2 c2 where
    t2: "main_loop_body offset_fitter st1 ''NII-6584A''
          [Fin 6583, Fin 6584] [Fin 1, Fin 2] None = Inr (st2, Some (m2, c2))"
    and v2: "\<forall>i<numComps. best_values m2 (gprefix i @ ''sigma'') = Some (fadd (sl ! i) (Fin 1))"
    by auto
  from thm1 [where emProfiles = st1 and emName = "''NII-6584A''" and emInfo = ?infoN
      and srcInfo = ?ref and sg = sl and ?wave1.0 = "[Fin 6583, Fin 6584]"
      and ?flux1.0 = "[Fin 1, Fin 2]" and flux1Error = None,
      OF refl lineN srcN']
  obtain csN ssN where
    allN: "\<forall>emProfiles' model comps.
          main_loop_body offset_fitter st1 ''NII-6584A'' [Fin 6583, Fin 6584] [Fin 1, Fin 2] None
            = Inr (emProfiles', Some (model, comps)) \<longrightarrow>
          (\<forall>k. k \<noteq> ''NII-6584A'' \<longrightarrow> emProfiles' k = st1 k)
        \<and> (center_sigma_fixed ''low'' ''NII-6584A'' \<longrightarrow> keeps_fixed offset_fitter \<longrightarrow>
             (\<forall>i<numComps. best_values model (gprefix i @ ''center'') = Some (csN ! i)
                           \<and> best_values model (gprefix i @ ''sigma'') = Some (sl ! i)))
        \<and> (\<not> center_sigma_fixed ''low'' ''NII-6584A'' \<longrightarrow>
             (\<exists>info sl. emProfiles' ''NII-6584A'' = Some info \<and> sigmaList info = Some sl
                \<and> length sl = numComps
                \<and> (\<forall>i<numComps. best_values model (gprefix i @ ''sigma'') = Some (sl ! i))))"
    by (elim exE conjE) (rule that; assumption)
  note afterN = allN [rule_format, OF t2]
  from afterN have frame2: "\<forall>k. k \<noteq> ''NII-6584A'' \<longrightarrow> st2 k = st1 k"
    by (rule conjunct1)
  from afterN freeN have "\<exists>info sl. st2 ''NII-6584A'' = Some info \<and> sigmaList info = Some sl
                \<and> length sl = numComps
                \<and> (\<forall>i<numComps. best_values m2 (gprefix i @ ''sigma'') = Some (sl ! i))"
    by simp
  then obtain info2 sl2 where
    st2N: "st2 ''NII-6584A'' = Some info2" "sigmaList info2 = Some sl2"
    and len2: "length sl2 = numComps"
    and f2: "\<forall>i<numComps. best_values m2 (gprefix i @ ''sigma'') = Some (sl2 ! i)"
    by (elim exE conjE)
  \<comment> \<open>the turn of the dependent line\<close>
  have kept: "st2 (reference_line ''low'') = st1 (reference_line ''low'')"
    using frame2 by (simp add: rl)
  have lineM: "st2 ''NII-6548A'' = Some ?infoM" "em_zone ?infoM = ''low''"
    "''NII-6548A'' \<noteq> reference_line ''low''"
    using frame2 by (simp_all add: st1M rl)
  have srcM: "st2 (sigma_source ''low'' ''NII-6548A'') = Some info2" "sigmaList info2 = Some sl2"
    by (simp_all add: sigma_source_def st2N)
  have fixedM: "center_sigma_fixed ''low'' ''NII-6548A''"
    by (simp add: center_sigma_fixed_def)
  have refM: "st2 (reference_line ''low'') = Some ?ref" "centerList ?ref = Some cl"
    using kept by (simp_all add: st1H)
  have lenM: "numComps \<le> length cl" "numComps \<le> length sl2"
    "numComps \<le> length (ampList ?infoM)"
    using len1 len2 by (simp_all add: numComps_def)
  from offset_dependent_turn [where z = "''low''" and emProfiles = st2
      and emName = "''NII-6548A''" and emInfo = ?infoM and refInfo = ?ref and cs = cl
      and srcInfo = info2 and sg = sl2 and ?wave1.0 = "[Fin 6548, Fin 6549]"
      and ?flux1.0 = "[Fin 1, Fin 2]" and flux1Error = None,
      OF z lineM refM srcM lenM]
  obtain st3 m3 c3 where
    t3: "main_loop_body offset_fitter st2 ''NII-6548A''
          [Fin 6548, Fin 6549] [Fin 1, Fin 2] None = Inr (st3, Some (m3, c3))"
    by auto
  from thm1 [where emProfiles = st2 and emName = "''NII-6548A''" and emInfo = ?infoM
      and srcInfo = info2 and sg = sl2 and ?wave1.0 = "[Fin 6548, Fin 6549]"
      and ?flux1.0 = "[Fin 1, Fin 2]" and flux1Error = None,
      OF kept lineM srcM]
  obtain cs ss where
    fitted: "\<forall>i<numComps. best_values m1 (gprefix i @ ''center'') = Some (cs ! i)
                    \<and> best_values m1 (gprefix i @ ''sigma'') = Some (ss ! i)"
    and allM: "\<forall>emProfiles' model comps.
          main_loop_body offset_fitter st2 ''NII-6548A'' [Fin 6548, Fin 6549] [Fin 1, Fin 2] None
            = Inr (emProfiles', Some (model, comps)) \<longrightarrow>
          (\<forall>k. k \<noteq> ''NII-6548A'' \<longrightarrow> emProfiles' k = st2 k)
        \<and> (center_sigma_fixed ''low'' ''NII-6548A'' \<longrightarrow> keeps_fixed offset_fitter \<longrightarrow>
             (\<forall>i<numComps. best_values model (gprefix i @ ''center'') = Some (cs ! i)
                           \<and> best_values model (gprefix i @ ''sigma'') = Some (sl2 ! i)))
        \<and> (\<not> center_sigma_fixed ''low'' ''NII-6548A'' \<longrightarrow>
             (\<exists>info sl. emProfiles' ''NII-6548A'' = Some info \<and> sigmaList info = Some sl
                \<and> length sl = numComps
                \<and> (\<forall>i<numComps. best_values model (gprefix i @ ''sigma'') = Some (sl ! i))))"
    by (elim exE conjE) (rule that; assumption)
  from fitted have fcs: "\<forall>i<numComps. best_values m1 (gprefix i @ ''center'') = Some (cs ! i)"
    by simp
  from allM [rule_format, OF t3] fixedM keeps_fixed_offset_fitter
  have f3: "\<forall>i<numComps. best_values m3 (gprefix i @ ''center'') = Some (cs ! i)
                           \<and> best_values m3 (gprefix i @ ''sigma'') = Some (sl2 ! i)"
    by simp
  have c3: "best_values m3 (gprefix i @ ''center'') = Some (fadd (centerListLowZone ! i) (Fin 1))"
    if "i < numComps" for i
  proof -
    from that v1 fcs have "cs ! i = fadd (centerListLowZone ! i) (Fin 1)" by simp
    with that f3 show ?thesis by simp
  qed
  have s3: "best_values m3 (gprefix i @ ''sigma'')
      = Some (fadd (fadd (sigmaListLowZone ! i) (Fin 1)) (Fin 1))"
    if "i < numComps" for i
  proof -
    from that v1 f1 have "sl ! i = fadd (sigmaListLowZone ! i) (Fin 1)"
      by simp
    moreover from that v2 f2 have "sl2 ! i = fadd (sl ! i) (Fin 1)"
      by simp
    ultimately show ?thesis using that f3 by simp
  qed
  have s2: "best_values m2 (gprefix i @ ''sigma'')
      = Some (fadd (fadd (sigmaListLowZone ! i) (Fin 1)) (Fin 1))"
    if "i < numComps" for i
  proof -
    from that v1 f1 have "sl ! i = fadd (sigmaListLowZone ! i) (Fin 1)"
      by simp
    with that v2 show ?thesis by simp
  qed
  have n: "(0::nat) < numComps" "Suc 0 < numComps" "(2::nat) < numComps"
    by (simp_all add: numComps_def)
  have vals: "best_values m1 ''g1_center'' = Some (Fin 6350.20126)
    \<and> best_values m1 ''g1_sigma'' = Some (Fin 20.2852694)
    \<and> best_values m2 ''g1_sigma'' = Some (Fin 21.2852694)
    \<and> best_values m3 ''g1_center'' = Some (Fin 6350.20126)
    \<and> best_values m3 ''g2_center'' = Some (Fin 6329.97820)
    \<and> best_values m3 ''g3_center'' = Some (Fin 6316.53639)
    \<and> best_values m3 ''g1_sigma'' = Some (Fin 21.2852694)
    \<and> best_values m3 ''g2_sigma'' = Some (Fin 66.1684056)
    \<and> best_values m3 ''g3_sigma'' = Some (Fin 24.2647170)"
    using v1 [rule_format, OF n(1)] s2 [OF n(1)]
      c3 [OF n(1)] c3 [OF n(2)] c3 [OF n(3)] s3 [OF n(1)] s3 [OF n(2)] s3 [OF n(3)]
    by (simp add: gprefix_numerals centerListLowZone_def sigmaListLowZone_def)
  from t1 [unfolded rl] t2 t3 vals show ?thesis
    by (intro exI [of _ st1] exI [of _ m1] exI [of _ c1] exI [of _ st2] exI [of _ m2]
        exI [of _ c2] exI [of _ st3] exI [of _ m3] exI [of _ c3] conjI) (elim conjE; assumption)+
qed

text \<open>
  Claim C5, as the code has it. The turn of \<open>NII-6548A\<close>, \<open>SII-6731A\<close> or \<open>OII-3726A\<close>
  in a dictionary where the sibling (\<open>NII-6584A\<close>, \<open>SII-6717A\<close>, \<open>OII-3729A\<close>) has no sigma
  list raises \<open>KeyError\<close>, whatever the fitter; the \<open>OrderingError\<close> of the specification
  is raised nowhere.
\<close>

theorem dependent_before_sibling_KeyError:
  assumes line: "emProfiles emName = Some emInfo" "em_zone emInfo = ''low''"
    and pair: "(emName, sibling) \<in> set [(''NII-6548A'', ''NII-6584A''),
        (''SII-6731A'', ''SII-6717A''), (''OII-3726A'', ''OII-3729A'')]"
    and missing: "\<forall>info. emProfiles sibling = Some info \<longrightarrow> sigmaList info = None"
  shows "main_loop_body fit emProfiles emName wave1 flux1 flux1Error = Inl KeyError"
proof -
  from pair have ne: "sibling \<noteq> emName" by auto
  from missing have sib: "lookup_key emProfiles sibling sigmaList = Inl KeyError"
    by (auto simp add: lookup_key_def split: option.splits)
  have sib': "lookup_key (emProfiles(emName \<mapsto> x)) sibling sigmaList = Inl KeyError" for x
    using ne sib by (simp add: lookup_key_upd_other)
  show ?thesis
  proof (cases "lookup_key emProfiles ''H-Alpha'' centerList")
    case (Inl e)
    then have "e = KeyError" by (rule lookup_key_Inl)
    with Inl pair line show ?thesis
      unfolding main_loop_body_def by (auto simp add: Let_def)
  next
    case (Inr cs)
    with pair line sib' show ?thesis
      unfolding main_loop_body_def by (auto simp add: Let_def)
  qed
qed

theorem dependent_before_sibling_witness:
  "main_loop_body seed_fitter emProfiles_after_H_Alpha ''NII-6548A''
      [Fin 6548.03, Fin 6549] [Fin 1, Fin 2] None = Inl KeyError"
proof -
  let ?info = "\<lparr>Colour = ''m'', Order = 21, Filter = ''red'', minI = 1000, maxI = 1300,
        restWavelength = Fin 6548.03, ampList = [Fin 0.6269642, Fin 0.7364259, Fin 0.5323627],
        em_zone = ''low'', sigmaT2 = Fin 11.87, centerList = None, sigmaList = None\<rparr>"
  have line: "emProfiles_after_H_Alpha ''NII-6548A'' = Some ?info" "em_zone ?info = ''low''"
    by (simp_all add: after_H_Alpha_lookups)
  have pair: "(''NII-6548A'', ''NII-6584A'') \<in> set [(''NII-6548A'', ''NII-6584A''),
        (''SII-6731A'', ''SII-6717A''), (''OII-3726A'', ''OII-3729A'')]"
    by simp
  have missing: "\<forall>info. emProfiles_after_H_Alpha ''NII-6584A'' = Some info
      \<longrightarrow> sigmaList info = None"
    by (simp add: after_H_Alpha_lookups)
  from dependent_before_sibling_KeyError [OF line pair missing] show ?thesis .
qed

text \<open>
  The claim as stated fails after the turn of \<open>H-Alpha\<close> alone: the turn of \<open>NII-6548A\<close>
  ends in an error that is not \<open>OrderingError\<close>.
\<close>

theorem dependent_before_sibling_counterexample:
  "main_loop_body seed_fitter emProfiles_after_H_Alpha ''NII-6548A''
      [Fin 6548.03, Fin 6549] [Fin 1, Fin 2] None \<noteq> Inl OrderingError"
proof -
  have "lookup_key emProfiles_after_H_Alpha ''H-Alpha'' centerList = Inr centerListLowZone"
    by (simp add: lookup_key_def after_H_Alpha_lookups)
  moreover have "lookup_key (emProfiles_after_H_Alpha(''NII-6548A'' \<mapsto> x)) ''NII-6584A''
      sigmaList = Inl KeyError" for x
    by (simp add: lookup_key_def after_H_Alpha_lookups)
  ultimately have "main_loop_body seed_fitter emProfiles_after_H_Alpha ''NII-6548A''
      [Fin 6548.03, Fin 6549] [Fin 1, Fin 2] None = Inl KeyError"
    unfolding main_loop_body_def by (simp add: after_H_Alpha_lookups Let_def)
  then show ?thesis by simp
qed

end
